theory Spec2Isabelle
  imports Complex_Main "HOL-Library.Multiset"
begin

section \<open>Numbers of the simulation\<close>

text \<open>
  The program computes with Python and numpy floats. A value is a finite number, one of
  the two infinities, or NaN (pandas' missing value). The operations \<open>f_add\<close>, \<open>f_sub\<close>,
  \<open>f_mul\<close> and \<open>f_div\<close> compute finite results exactly (real numbers): they model
  everything the clipping and fill rules of the program look at (NaN never compares, NaN
  propagates through arithmetic, the infinities are ordered), but not rounding. Rounding
  is modelled further down (\<open>round_double\<close>, \<open>d_mul\<close>, \<open>d_sub\<close>) and used where a
  statement depends on it: the loss cascade. Overflow and the sign of zero are not
  modelled.
\<close>

datatype flt = NaN | NInf | Fin real | PInf

fun f_le :: "flt \<Rightarrow> flt \<Rightarrow> bool" where
  "f_le (Fin a) (Fin b) = (a \<le> b)"
| "f_le NaN _ = False"
| "f_le _ NaN = False"
| "f_le NInf _ = True"
| "f_le _ PInf = True"
| "f_le _ _ = False"

definition f_lt :: "flt \<Rightarrow> flt \<Rightarrow> bool" where
  "f_lt a b = (f_le a b \<and> \<not> f_le b a)"

definition f_ge :: "flt \<Rightarrow> flt \<Rightarrow> bool" where
  "f_ge a b = f_le b a"

definition f_gt :: "flt \<Rightarrow> flt \<Rightarrow> bool" where
  "f_gt a b = f_lt b a"

fun f_neg :: "flt \<Rightarrow> flt" where
  "f_neg NaN = NaN"
| "f_neg NInf = PInf"
| "f_neg (Fin a) = Fin (- a)"
| "f_neg PInf = NInf"

fun f_add :: "flt \<Rightarrow> flt \<Rightarrow> flt" where
  "f_add (Fin a) (Fin b) = Fin (a + b)"
| "f_add NaN _ = NaN"
| "f_add _ NaN = NaN"
| "f_add PInf NInf = NaN"
| "f_add NInf PInf = NaN"
| "f_add PInf _ = PInf"
| "f_add _ PInf = PInf"
| "f_add NInf _ = NInf"
| "f_add _ NInf = NInf"

definition f_sub :: "flt \<Rightarrow> flt \<Rightarrow> flt" where
  "f_sub a b = f_add a (f_neg b)"

definition signed_inf :: "real \<Rightarrow> flt" where
  "signed_inf s = (if 0 < s then PInf else if s < 0 then NInf else NaN)"

fun f_mul :: "flt \<Rightarrow> flt \<Rightarrow> flt" where
  "f_mul (Fin a) (Fin b) = Fin (a * b)"
| "f_mul NaN _ = NaN"
| "f_mul _ NaN = NaN"
| "f_mul PInf PInf = PInf"
| "f_mul NInf NInf = PInf"
| "f_mul PInf NInf = NInf"
| "f_mul NInf PInf = NInf"
| "f_mul PInf (Fin b) = signed_inf b"
| "f_mul (Fin a) PInf = signed_inf a"
| "f_mul NInf (Fin b) = signed_inf (- b)"
| "f_mul (Fin a) NInf = signed_inf (- a)"

fun f_div :: "flt \<Rightarrow> flt \<Rightarrow> flt" where
  "f_div (Fin a) (Fin b) = (if b = 0 then signed_inf a else Fin (a / b))"
| "f_div NaN _ = NaN"
| "f_div _ NaN = NaN"
| "f_div (Fin a) _ = Fin 0"
| "f_div PInf (Fin b) = (if 0 \<le> b then PInf else NInf)"
| "f_div NInf (Fin b) = (if 0 \<le> b then NInf else PInf)"
| "f_div _ _ = NaN"

text \<open>
  A pandas Series is a list of values in index order. All series of one run are columns
  over the index of the weather frame, so operations between series work position by
  position.
\<close>

type_synonym series = "flt list"

definition series_mul :: "series \<Rightarrow> flt \<Rightarrow> series" where
  "series_mul xs c = map (\<lambda>x. f_mul x c) xs"

subsection \<open>Rounding\<close>

text \<open>
  A Python float is an IEEE 754 binary64 number, and every arithmetic operation returns
  the exact result rounded to the nearest such number, ties going to the one with an even
  significand. \<open>rne\<close> rounds a real to the nearest integer, ties to even. \<open>round_double\<close>
  rounds a real to 53 significant bits: it scales the number by a power of two so that
  its magnitude lies in \<open>[2^52, 2^53)\<close>, rounds to an integer, and scales back. The
  exponent is unbounded here: the model has no overflow to infinity and no subnormal
  numbers, so it is the arithmetic of the program for results whose magnitude is 0 or
  lies in \<open>[2^-1022, 2^1024)\<close>. \<open>unit_roundoff\<close> is the largest relative error of one
  rounding.
\<close>

definition rne :: "real \<Rightarrow> int" where
  "rne y = (let n = \<lfloor>y\<rfloor>; r = y - of_int n
            in if r < 1 / 2 then n else if 1 / 2 < r then n + 1
               else if even n then n else n + 1)"

definition round_double :: "real \<Rightarrow> real" where
  "round_double x =
     (if x = 0 then 0
      else let e = \<lfloor>log 2 \<bar>x\<bar>\<rfloor> - 52
           in of_int (rne (x / 2 powr of_int e)) * 2 powr of_int e)"


text \<open>
  The float operations of the program: the exact result, rounded. Infinities and NaN are
  left as they are.
\<close>

definition rnd :: "flt \<Rightarrow> flt" where
  "rnd a = (case a of Fin x \<Rightarrow> Fin (round_double x) | _ \<Rightarrow> a)"

definition d_mul :: "flt \<Rightarrow> flt \<Rightarrow> flt" where
  "d_mul a b = rnd (f_mul a b)"

definition d_sub :: "flt \<Rightarrow> flt \<Rightarrow> flt" where
  "d_sub a b = rnd (f_sub a b)"


subsection \<open>numpy and pandas operations on one element\<close>

text \<open>
  \<open>fillna(v)\<close> replaces NaN only. \<open>np.where\<close> chooses by a condition that is false
  whenever the compared value is NaN. \<open>np.maximum\<close> and \<open>np.minimum\<close> return NaN when
  either argument is NaN.
\<close>

definition fillna :: "flt \<Rightarrow> flt \<Rightarrow> flt" where
  "fillna v x = (if x = NaN then v else x)"

definition np_where :: "bool \<Rightarrow> flt \<Rightarrow> flt \<Rightarrow> flt" where
  "np_where c a b = (if c then a else b)"

definition np_maximum :: "flt \<Rightarrow> flt \<Rightarrow> flt" where
  "np_maximum a b = (if a = NaN \<or> b = NaN then NaN else if f_le a b then b else a)"

definition np_minimum :: "flt \<Rightarrow> flt \<Rightarrow> flt" where
  "np_minimum a b = (if a = NaN \<or> b = NaN then NaN else if f_le a b then a else b)"

text \<open>
  \<open>Series.clip(lower, upper)\<close> of pandas with scalar thresholds: a NaN threshold counts as
  absent; when both thresholds are given they are put in order (\<open>min\<close>, \<open>max\<close>); a NaN
  element stays NaN; every other element below \<open>lower\<close> becomes \<open>lower\<close> and above
  \<open>upper\<close> becomes \<open>upper\<close>.
\<close>

definition py_min :: "flt \<Rightarrow> flt \<Rightarrow> flt" where
  "py_min a b = (if f_lt b a then b else a)"

definition py_max :: "flt \<Rightarrow> flt \<Rightarrow> flt" where
  "py_max a b = (if f_gt b a then b else a)"

definition clip_with_scalar :: "flt option \<Rightarrow> flt option \<Rightarrow> flt \<Rightarrow> flt" where
  "clip_with_scalar lower upper x =
     (let mask = (x = NaN);
          result = (case lower of
                      None \<Rightarrow> x
                    | Some l \<Rightarrow> if mask \<or> f_ge x l then x else l)
      in case upper of
           None \<Rightarrow> result
         | Some u \<Rightarrow> if mask \<or> f_le x u then result else u)"

definition drop_na :: "flt option \<Rightarrow> flt option" where
  "drop_na b = (if b = Some NaN then None else b)"

definition clip :: "flt option \<Rightarrow> flt option \<Rightarrow> flt \<Rightarrow> flt" where
  "clip lower upper x =
     (case (drop_na lower, drop_na upper) of
        (Some l, Some u) \<Rightarrow> clip_with_scalar (Some (py_min l u)) (Some (py_max l u)) x
      | (lo, up) \<Rightarrow> clip_with_scalar lo up x)"

definition series3 :: "(flt \<Rightarrow> flt \<Rightarrow> flt \<Rightarrow> flt) \<Rightarrow> series \<Rightarrow> series \<Rightarrow> series \<Rightarrow> series" where
  "series3 f xs ys zs = map (\<lambda>(x, y, z). f x y z) (zip xs (zip ys zs))"

subsection \<open>Python objects and errors\<close>

text \<open>
  The configuration dicts hold numbers and strings. A dict lookup \<open>d[k]\<close> raises
  \<open>KeyError\<close> for a missing key. The numeric routines of the libraries reject an argument
  that is not a number with \<open>TypeError\<close>.
\<close>

datatype pyobj = Num flt | Str string

datatype error =
    KeyError string
  | ValueError string
  | TypeError
  | FetchError

definition bindE :: "error + 'a \<Rightarrow> ('a \<Rightarrow> error + 'b) \<Rightarrow> error + 'b" where
  "bindE m f = (case m of Inl e \<Rightarrow> Inl e | Inr x \<Rightarrow> f x)"

type_synonym params = "string \<Rightarrow> pyobj option"

definition getitem :: "params \<Rightarrow> string \<Rightarrow> error + pyobj" where
  "getitem d k = (case d k of None \<Rightarrow> Inl (KeyError k) | Some v \<Rightarrow> Inr v)"

definition get_default :: "params \<Rightarrow> string \<Rightarrow> pyobj \<Rightarrow> pyobj" where
  "get_default d k dflt = (case d k of None \<Rightarrow> dflt | Some v \<Rightarrow> v)"

definition number :: "pyobj \<Rightarrow> error + flt" where
  "number v = (case v of Num x \<Rightarrow> Inr x | Str s \<Rightarrow> Inl TypeError)"

section \<open>The pvlib functions the program calls\<close>

text \<open>
  pvlib is a third-party library; the program calls eleven of its functions. Each works
  on a series position by position, so each is a function of the values at one
  timestep and of the scalar arguments. They are parameters of the model: every
  theorem below holds for every choice of these functions, unless it says otherwise.
  Exceptions raised inside the library on numeric arguments are not modelled.
\<close>

type_synonym timestamp = int

record irradiance_components =
  pc_poa_global :: flt
  pc_poa_direct :: flt
  pc_poa_diffuse :: flt
  pc_poa_sky_diffuse :: flt
  pc_poa_ground_diffuse :: flt

record solar_position =
  apparent_zenith :: flt
  sp_azimuth :: flt

record pvlib =
  solarposition_get_solarposition :: "timestamp \<Rightarrow> flt \<Rightarrow> flt \<Rightarrow> flt \<Rightarrow> flt \<Rightarrow> solar_position"
  irradiance_get_extra_radiation :: "timestamp \<Rightarrow> flt"
  atmosphere_get_relative_airmass :: "flt \<Rightarrow> flt"
  atmosphere_get_absolute_airmass :: "flt \<Rightarrow> flt"
  irradiance_get_total_irradiance ::
    "flt \<Rightarrow> flt \<Rightarrow> flt \<Rightarrow> flt \<Rightarrow> flt \<Rightarrow> flt \<Rightarrow> flt \<Rightarrow> flt \<Rightarrow> flt \<Rightarrow> flt \<Rightarrow> irradiance_components"
  irradiance_aoi :: "flt \<Rightarrow> flt \<Rightarrow> flt \<Rightarrow> flt \<Rightarrow> flt"
  iam_physical :: "flt \<Rightarrow> flt \<Rightarrow> flt \<Rightarrow> flt \<Rightarrow> flt"
  temperature_faiman :: "flt \<Rightarrow> flt \<Rightarrow> flt \<Rightarrow> flt \<Rightarrow> flt \<Rightarrow> flt"
  temperature_pvsyst_cell :: "flt \<Rightarrow> flt \<Rightarrow> flt \<Rightarrow> flt \<Rightarrow> flt \<Rightarrow> flt"
  pvsystem_pvwatts_dc :: "flt \<Rightarrow> flt \<Rightarrow> flt \<Rightarrow> flt \<Rightarrow> flt \<Rightarrow> flt"
  inverter_pvwatts :: "flt \<Rightarrow> flt \<Rightarrow> flt \<Rightarrow> flt \<Rightarrow> flt"

section \<open>System losses (src/models/losses.py)\<close>

text \<open>
  \<open>loss_params\<close> is a Python dict from category name to loss fraction; iteration follows
  insertion order, so it is the list of its items.
\<close>

type_synonym loss_params = "(string \<times> flt) list"

text \<open>
  \<open>apply_all_losses\<close>: one loop, \<open>power = power * (1 - loss_value)\<close> for every item whose
  value is \<open>> 0\<close>. Python's \<open>*\<close> works on a Series (element by element) and on a plain
  number alike, so the loop is written once over the multiplication.
\<close>

definition apply_all_losses_with ::
  "('p \<Rightarrow> flt \<Rightarrow> 'p) \<Rightarrow> loss_params \<Rightarrow> 'p \<Rightarrow> 'p" where
  "apply_all_losses_with mul loss_params dc_power =
     fold (\<lambda>(loss_name, loss_value) power_after_loss.
             if f_gt loss_value (Fin 0)
             then mul power_after_loss (f_sub (Fin 1) loss_value)
             else power_after_loss)
          loss_params dc_power"

definition apply_all_losses :: "loss_params \<Rightarrow> series \<Rightarrow> series" where
  "apply_all_losses = apply_all_losses_with series_mul"

definition apply_all_losses_scalar :: "loss_params \<Rightarrow> flt \<Rightarrow> flt" where
  "apply_all_losses_scalar = apply_all_losses_with f_mul"

definition get_total_loss_factor :: "loss_params \<Rightarrow> flt" where
  "get_total_loss_factor loss_params =
     fold (\<lambda>(loss_name, loss_value) retention_factor.
             f_mul retention_factor (f_sub (Fin 1) loss_value))
          loss_params (Fin 1)"





definition get_total_loss_percentage :: "loss_params \<Rightarrow> flt" where
  "get_total_loss_percentage loss_params =
     f_mul (f_sub (Fin 1) (get_total_loss_factor loss_params)) (Fin 100)"

definition get_system_efficiency :: "loss_params \<Rightarrow> flt" where
  "get_system_efficiency loss_params = get_total_loss_factor loss_params"

text \<open>
  \<open>apply_individual_loss\<close> raises \<open>ValueError\<close> for a name that is not a key, and
  multiplies by \<open>1 - loss_value\<close> otherwise (here without the \<open>> 0\<close> test).
\<close>

definition apply_individual_loss_with ::
  "('p \<Rightarrow> flt \<Rightarrow> 'p) \<Rightarrow> loss_params \<Rightarrow> 'p \<Rightarrow> string \<Rightarrow> error + 'p" where
  "apply_individual_loss_with mul loss_params power_in loss_name =
     (case map_of loss_params loss_name of
        None \<Rightarrow> Inl (ValueError loss_name)
      | Some loss_value \<Rightarrow> Inr (mul power_in (f_sub (Fin 1) loss_value)))"

definition apply_individual_loss :: "loss_params \<Rightarrow> series \<Rightarrow> string \<Rightarrow> error + series" where
  "apply_individual_loss = apply_individual_loss_with series_mul"

definition apply_individual_loss_scalar :: "loss_params \<Rightarrow> flt \<Rightarrow> string \<Rightarrow> error + flt" where
  "apply_individual_loss_scalar = apply_individual_loss_with f_mul"

text \<open>A loss profile whose fractions are finite numbers, as a dict.\<close>

definition fractions :: "(string \<times> real) list \<Rightarrow> loss_params" where
  "fractions ls = map (\<lambda>(n, l). (n, Fin l)) ls"

text \<open>The default profile \<open>LOSSES\<close> of src/config/loss_params.py.\<close>

definition LOSSES :: loss_params where
  "LOSSES = fractions
     [(''soiling'', 2 / 100), (''shading'', 0), (''snow'', 0),
      (''mismatch'', 2 / 100), (''wiring'', 2 / 100), (''connections'', 5 / 1000),
      (''lid'', 15 / 1000), (''nameplate_rating'', 1 / 100), (''age'', 0),
      (''availability'', 1 / 100)]"

subsection \<open>Two library functions as the specification gives them\<close>

text \<open>
  Modelled from the spec: \<open>pvlib.pvsystem.pvwatts_dc\<close> is library code and not under src/.
  Section 4.5 of the specification gives its formula:
  dc_power = pdc0 * (effective_poa / 1000) * (1 + gamma_pmp * (cell_temp - T_ref)).
\<close>

definition pvwatts_dc :: "flt \<Rightarrow> flt \<Rightarrow> flt \<Rightarrow> flt \<Rightarrow> flt \<Rightarrow> flt" where
  "pvwatts_dc effective_irradiance temp_cell pdc0 gamma_pdc temp_ref =
     f_mul (f_mul pdc0 (f_div effective_irradiance (Fin 1000)))
           (f_add (Fin 1) (f_mul gamma_pdc (f_sub temp_cell temp_ref)))"

text \<open>
  Modelled from the spec: \<open>pvlib.temperature.faiman\<close> is library code and not under src/.
  Section 4.4 of the specification gives its formula:
  cell_temp = temp_air + poa_global / (u0 + u1 * wind_speed).
\<close>

definition faiman :: "flt \<Rightarrow> flt \<Rightarrow> flt \<Rightarrow> flt \<Rightarrow> flt \<Rightarrow> flt" where
  "faiman poa_global temp_air wind_speed u0 u1 =
     f_add temp_air (f_div poa_global (f_add u0 (f_mul u1 wind_speed)))"

subsection \<open>The inverter function of the library\<close>

text \<open>
  \<open>pvlib.inverter.pvwatts\<close> is library code, not under src/, and the specification gives no
  formula for it. This is the function as pvlib defines it: the rated AC power of the
  model is \<open>pac0 = eta_inv_nom * pdc0\<close>, the loading is \<open>zeta = pdc / pdc0\<close>, the efficiency
  is \<open>eta_inv_nom / eta_inv_ref * (-0.0162 * zeta - 0.0059 / zeta + 0.9858)\<close> (without the
  middle term where \<open>pdc = 0\<close>), and the result is \<open>eta * pdc\<close>, first capped at
  \<open>eta_inv_nom * pdc0\<close> (\<open>np.minimum\<close>) and then floored at 0 (\<open>np.maximum\<close>). It is
  used only in the second instance of the library below.
\<close>

definition pvwatts_inverter :: "flt \<Rightarrow> flt \<Rightarrow> flt \<Rightarrow> flt \<Rightarrow> flt" where
  "pvwatts_inverter pdc pdc0 eta_inv_nom eta_inv_ref =
     (let pac0 = f_mul eta_inv_nom pdc0;
          zeta = f_div pdc pdc0;
          eta = f_mul (f_div eta_inv_nom eta_inv_ref)
                  (f_add (f_sub (f_mul (Fin (- 162 / 10000)) zeta)
                                (if pdc = Fin 0 then Fin 0 else f_div (Fin (59 / 10000)) zeta))
                         (Fin (9858 / 10000)));
          power_ac = f_mul eta pdc
      in np_maximum (Fin 0) (np_minimum pac0 power_ac))"

subsection \<open>An instance of the library\<close>

text \<open>
  One fixed choice of the eleven functions, for evaluating the model at concrete inputs.
  Cell temperature and DC power are the two formulas above; the inverter has a flat
  efficiency \<open>eta_inv_nom\<close> (a simplification: it is not the curve of pvlib, and it does
  not cap its output); the sun stands at zenith 60, azimuth 180; transposition
  returns the irradiance of a horizontal surface under an overcast sky (all of it
  diffuse); the incidence-angle modifier is 1 below 90 degrees and undefined from there
  on. No general theorem refers to this instance.
\<close>

definition sample_pvlib :: pvlib where
  "sample_pvlib =
     \<lparr>solarposition_get_solarposition =
        (\<lambda>time lat lon alt temperature. \<lparr>apparent_zenith = Fin 60, sp_azimuth = Fin 180\<rparr>),
      irradiance_get_extra_radiation = (\<lambda>time. Fin 1361),
      atmosphere_get_relative_airmass = (\<lambda>zenith. Fin 2),
      atmosphere_get_absolute_airmass = (\<lambda>airmass. airmass),
      irradiance_get_total_irradiance =
        (\<lambda>surface_tilt surface_azimuth zenith sun_azimuth dni_v ghi_v dhi_v dni_extra airmass alb.
           \<lparr>pc_poa_global = dhi_v, pc_poa_direct = Fin 0, pc_poa_diffuse = dhi_v,
            pc_poa_sky_diffuse = dhi_v, pc_poa_ground_diffuse = Fin 0\<rparr>),
      irradiance_aoi = (\<lambda>surface_tilt surface_azimuth zenith sun_azimuth. zenith),
      iam_physical = (\<lambda>angle n K L. if f_lt angle (Fin 90) then Fin 1 else NaN),
      temperature_faiman = faiman,
      temperature_pvsyst_cell =
        (\<lambda>poa t w u_c u_v. f_add t (f_div poa (f_add u_c (f_mul u_v w)))),
      pvsystem_pvwatts_dc = pvwatts_dc,
      inverter_pvwatts = (\<lambda>pdc pdc0 eta_inv_nom eta_inv_ref. f_mul eta_inv_nom pdc)\<rparr>"

text \<open>
  A second instance, closer to pvlib at two places. The inverter is \<open>pvwatts_inverter\<close>.
  And transposition is undefined where direct and diffuse irradiance are both zero
  while the sun is up: the Perez model, which the program selects, computes the sky
  clearness \<open>(dhi + dni) / dhi\<close>, which is 0 / 0 there, and the sky diffuse component and
  the total that are computed from it are NaN.
\<close>

definition perez_pvlib :: pvlib where
  "perez_pvlib = sample_pvlib
     \<lparr>irradiance_get_total_irradiance :=
        (\<lambda>surface_tilt surface_azimuth zenith sun_azimuth dni_v ghi_v dhi_v dni_extra airmass alb.
           if dni_v = Fin 0 \<and> dhi_v = Fin 0
           then \<lparr>pc_poa_global = NaN, pc_poa_direct = Fin 0, pc_poa_diffuse = NaN,
                 pc_poa_sky_diffuse = NaN, pc_poa_ground_diffuse = Fin 0\<rparr>
           else \<lparr>pc_poa_global = dhi_v, pc_poa_direct = Fin 0, pc_poa_diffuse = dhi_v,
                 pc_poa_sky_diffuse = dhi_v, pc_poa_ground_diffuse = Fin 0\<rparr>),
      inverter_pvwatts := pvwatts_inverter\<rparr>"

section \<open>Cell temperature (src/models/temperature.py)\<close>

record temperature_model =
  mounting_type :: pyobj
  model :: string
  temperature_params :: "(string \<times> flt) list"

definition get_temperature_model_params :: "pyobj \<Rightarrow> string \<Rightarrow> (string \<times> flt) list" where
  "get_temperature_model_params mounting mdl =
     (if mdl = ''faiman'' then
        (if mounting = Str ''roof_mounted'' then [(''u0'', Fin 29), (''u1'', Fin 1)]
         else if mounting = Str ''open_rack'' then [(''u0'', Fin 25), (''u1'', Fin (684 / 100))]
         else [(''u0'', Fin 26), (''u1'', Fin (12 / 10))])
      else if mdl = ''pvsyst'' then
        (if mounting = Str ''roof_mounted'' then [(''u_c'', Fin 29), (''u_v'', Fin 0)]
         else [(''u_c'', Fin 25), (''u_v'', Fin (12 / 10))])
      else [(''u0'', Fin 25), (''u1'', Fin (684 / 100))])"

definition TemperatureModel :: "pyobj \<Rightarrow> string \<Rightarrow> temperature_model" where
  "TemperatureModel mounting mdl =
     \<lparr>mounting_type = mounting, model = mdl,
      temperature_params = get_temperature_model_params mounting mdl\<rparr>"

definition param :: "(string \<times> flt) list \<Rightarrow> string \<Rightarrow> error + flt" where
  "param ps k = (case map_of ps k of None \<Rightarrow> Inl (KeyError k) | Some v \<Rightarrow> Inr v)"

text \<open>
  \<open>calculate_cell_temperature\<close>, first part: the temperature of the configured model
  (the \<open>if\<close> chain on \<open>self.model\<close>).
\<close>

definition model_cell_temperature ::
  "pvlib \<Rightarrow> temperature_model \<Rightarrow> series \<Rightarrow> series \<Rightarrow> series \<Rightarrow> error + series" where
  "model_cell_temperature lib self poa_global temp_air wind_speed =
     (if model self = ''faiman'' then
        bindE (param (temperature_params self) ''u0'') (\<lambda>u0.
        bindE (param (temperature_params self) ''u1'') (\<lambda>u1.
        Inr (series3 (\<lambda>p t w. temperature_faiman lib p t w u0 u1)
               poa_global temp_air wind_speed)))
      else if model self = ''pvsyst'' then
        bindE (param (temperature_params self) ''u_c'') (\<lambda>u_c.
        bindE (param (temperature_params self) ''u_v'') (\<lambda>u_v.
        Inr (series3 (\<lambda>p t w. temperature_pvsyst_cell lib p t w u_c u_v)
               poa_global temp_air wind_speed)))
      else
        (let noct = (if mounting_type self = Str ''roof_mounted'' then 50 else 45 :: real)
         in Inr (map2 (\<lambda>t p. f_add t (f_mul (Fin ((noct - 20) / 800)) p))
                   temp_air poa_global)))"

text \<open>
  Second part, the post-processing, in the order of the source: (1) where
  \<open>poa_global <= 0\<close> take \<open>temp_air\<close>; (2) \<open>np.maximum\<close> with \<open>temp_air\<close>;
  (3) \<open>clip(lower=-40, upper=85)\<close>.
\<close>

definition post_process :: "series \<Rightarrow> series \<Rightarrow> series \<Rightarrow> series" where
  "post_process poa_global temp_air cell_temp =
     (let cell_temp1 = series3 (\<lambda>p t c. np_where (f_le p (Fin 0)) t c)
                         poa_global temp_air cell_temp;
          cell_temp2 = map2 np_maximum cell_temp1 temp_air;
          cell_temp3 = map (clip (Some (Fin (- 40))) (Some (Fin 85))) cell_temp2
      in cell_temp3)"

definition calculate_cell_temperature ::
  "pvlib \<Rightarrow> temperature_model \<Rightarrow> series \<Rightarrow> series \<Rightarrow> series \<Rightarrow> error + series" where
  "calculate_cell_temperature lib self poa_global temp_air wind_speed =
     bindE (model_cell_temperature lib self poa_global temp_air wind_speed)
       (\<lambda>cell_temp. Inr (post_process poa_global temp_air cell_temp))"

section \<open>The simulator object (src/core/pv_simulator.py, constructors)\<close>

record site =
  latitude :: pyobj
  longitude :: pyobj
  altitude :: pyobj

record weather_fetcher = site +
  base_url :: string

record irradiance_model = site +
  tilt :: pyobj
  azimuth :: pyobj
  albedo :: pyobj

definition PVGISWeatherFetcher :: "pyobj \<Rightarrow> pyobj \<Rightarrow> pyobj \<Rightarrow> weather_fetcher" where
  "PVGISWeatherFetcher lat lon alt =
     \<lparr>latitude = lat, longitude = lon, altitude = alt,
      base_url = ''https://re.jrc.ec.europa.eu/api/v5_2''\<rparr>"

definition IrradianceModel ::
  "pyobj \<Rightarrow> pyobj \<Rightarrow> pyobj \<Rightarrow> pyobj \<Rightarrow> pyobj \<Rightarrow> pyobj \<Rightarrow> irradiance_model" where
  "IrradianceModel lat lon alt tlt az alb =
     \<lparr>latitude = lat, longitude = lon, altitude = alt, tilt = tlt, azimuth = az, albedo = alb\<rparr>"

text \<open>
  A \<open>SystemLosses\<close> object holds nothing but its \<open>loss_params\<close> dict, so \<open>loss_model\<close> is
  that dict.
\<close>

record pv_simulator =
  location :: params
  system :: params
  module :: params
  inverter :: params
  loss_params :: loss_params
  weather_fetcher :: weather_fetcher
  irradiance_model :: irradiance_model
  temperature_model :: temperature_model
  loss_model :: loss_params

text \<open>
  \<open>PVSimulator.__init__\<close> stores the five dicts and builds the four sub-models. It reads
  seven keys; a missing key raises \<open>KeyError\<close>. No value is inspected.
\<close>

definition PVSimulator ::
  "params \<Rightarrow> params \<Rightarrow> params \<Rightarrow> params \<Rightarrow> loss_params \<Rightarrow> error + pv_simulator" where
  "PVSimulator location_params system_params module_params inverter_params losses =
     bindE (getitem location_params ''latitude'') (\<lambda>lat.
     bindE (getitem location_params ''longitude'') (\<lambda>lon.
     bindE (getitem location_params ''altitude'') (\<lambda>alt.
     bindE (getitem system_params ''tilt'') (\<lambda>tlt.
     bindE (getitem system_params ''azimuth'') (\<lambda>az.
     bindE (getitem system_params ''albedo'') (\<lambda>alb.
     bindE (getitem system_params ''mounting_type'') (\<lambda>mounting.
     Inr \<lparr>location = location_params,
          system = system_params,
          module = module_params,
          inverter = inverter_params,
          loss_params = losses,
          weather_fetcher = PVGISWeatherFetcher lat lon alt,
          irradiance_model = IrradianceModel lat lon alt tlt az alb,
          temperature_model = TemperatureModel mounting ''faiman'',
          loss_model = losses\<rparr>)))))))"

subsection \<open>The default configuration (src/config/system_params.py)\<close>

text \<open>
  The scalar entries of the four dicts. \<open>MODULE['structure']\<close>, a nested dict that
  nothing reads, is left out; the place name of \<open>LOCATION\<close>, which is only printed, is
  written in Latin letters.
\<close>

definition LOCATION :: params where
  "LOCATION = map_of
     [(''latitude'', Num (Fin (3130 / 100))), (''longitude'', Num (Fin (12062 / 100))),
      (''altitude'', Num (Fin 5)), (''timezone'', Str ''Asia/Shanghai''),
      (''name'', Str ''Suzhou'')]"

definition SYSTEM :: params where
  "SYSTEM = map_of
     [(''capacity_kw'', Num (Fin 1000)), (''area_m2'', Num (Fin 5000)),
      (''tilt'', Num (Fin 3)), (''azimuth'', Num (Fin 180)),
      (''albedo'', Num (Fin (2 / 10))), (''mounting_type'', Str ''roof_mounted'')]"

definition MODULE :: params where
  "MODULE = map_of
     [(''name'', Str ''Standard 545W Mono-Si''), (''technology'', Str ''mono-Si''),
      (''pmp'', Num (Fin 545)), (''vmp'', Num (Fin (415 / 10))),
      (''imp'', Num (Fin (1313 / 100))), (''voc'', Num (Fin (497 / 10))),
      (''isc'', Num (Fin (1395 / 100))),
      (''alpha_sc'', Num (Fin (5 / 10000))), (''beta_voc'', Num (Fin (- 29 / 10000))),
      (''gamma_pmp'', Num (Fin (- 35 / 10000))),
      (''T_noct'', Num (Fin 50)), (''T_ref'', Num (Fin 25)), (''G_ref'', Num (Fin 1000)),
      (''area'', Num (Fin 2)), (''cells_in_series'', Num (Fin 144)),
      (''quantity'', Num (Fin (of_int \<lfloor>1000 * 1000 / (545 :: real)\<rfloor>)))]"

definition INVERTER :: params where
  "INVERTER = map_of
     [(''type'', Str ''central''), (''name'', Str ''Central Inverter 1000kW''),
      (''pdc0'', Num (Fin 1000)), (''pac0'', Num (Fin 1000)),
      (''eta_inv_nom'', Num (Fin (98 / 100))), (''eta_inv_ref'', Num (Fin (9637 / 10000))),
      (''pdc_min'', Num (Fin 50)), (''pdc_max'', Num (Fin 1050)),
      (''vdc_min'', Num (Fin 450)), (''vdc_max'', Num (Fin 1000)),
      (''vdc_nom'', Num (Fin 700)), (''mppt_low'', Num (Fin 500)),
      (''mppt_high'', Num (Fin 850)), (''quantity'', Num (Fin 1))]"

section \<open>DC and AC power (src/core/pv_simulator.py)\<close>

text \<open>
  \<open>_calculate_dc_power\<close>: \<open>pvlib.pvsystem.pvwatts_dc\<close> with \<open>pdc0 = system['capacity_kw']\<close>,
  \<open>gamma_pdc = module['gamma_pmp']\<close>, \<open>temp_ref = module['T_ref']\<close>, then \<open>clip(lower=0)\<close>.
\<close>

definition calculate_dc_power ::
  "pvlib \<Rightarrow> pv_simulator \<Rightarrow> series \<Rightarrow> series \<Rightarrow> error + series" where
  "calculate_dc_power lib self poa_effective cell_temp =
     bindE (getitem (system self) ''capacity_kw'') (\<lambda>pdc0.
     bindE (getitem (module self) ''gamma_pmp'') (\<lambda>gamma_pdc.
     bindE (getitem (module self) ''T_ref'') (\<lambda>temp_ref.
     bindE (number pdc0) (\<lambda>pdc0.
     bindE (number gamma_pdc) (\<lambda>gamma_pdc.
     bindE (number temp_ref) (\<lambda>temp_ref.
       let dc_power = map2 (\<lambda>g t. pvsystem_pvwatts_dc lib g t pdc0 gamma_pdc temp_ref)
                        poa_effective cell_temp
       in Inr (map (clip (Some (Fin 0)) None) dc_power)))))))"

text \<open>
  \<open>_calculate_ac_power\<close>: \<open>pvlib.inverter.pvwatts\<close> with \<open>pdc0\<close>, \<open>eta_inv_nom\<close> and
  \<open>eta_inv_ref\<close> (default 0.9637) of the inverter dict, then
  \<open>clip(lower=0, upper=inverter['pac0'])\<close>. No other key of the inverter dict is read.
\<close>

definition calculate_ac_power :: "pvlib \<Rightarrow> pv_simulator \<Rightarrow> series \<Rightarrow> error + series" where
  "calculate_ac_power lib self dc_power =
     bindE (getitem (inverter self) ''pdc0'') (\<lambda>pdc0.
     bindE (getitem (inverter self) ''eta_inv_nom'') (\<lambda>eta_inv_nom.
     bindE (number pdc0) (\<lambda>pdc0.
     bindE (number eta_inv_nom) (\<lambda>eta_inv_nom.
     bindE (number (get_default (inverter self) ''eta_inv_ref'' (Num (Fin (9637 / 10000)))))
       (\<lambda>eta_inv_ref.
       let ac_power = map (\<lambda>p. inverter_pvwatts lib p pdc0 eta_inv_nom eta_inv_ref) dc_power
       in bindE (getitem (inverter self) ''pac0'') (\<lambda>pac_max.
          bindE (number pac_max) (\<lambda>pac_max.
          Inr (map (clip (Some (Fin 0)) (Some pac_max)) ac_power))))))))"

section \<open>Frames\<close>

text \<open>
  A DataFrame is the list of its rows in index order; the index is the \<open>datetime\<close> of the
  row; a column is the list of one field. The weather frame has the columns the program
  reads. \<open>calculate_poa\<close> adds ten columns, \<open>run_simulation\<close> five more.
\<close>

record weather_row =
  datetime :: timestamp
  ghi :: flt
  dni :: flt
  dhi :: flt
  temp_air :: flt
  wind_speed :: flt

record poa_row = weather_row +
  solar_zenith :: flt
  solar_azimuth :: flt
  poa_global :: flt
  poa_direct :: flt
  poa_diffuse :: flt
  poa_sky_diffuse :: flt
  poa_ground_diffuse :: flt
  aoi :: flt
  iam :: flt
  poa_effective :: flt

record sim_row = poa_row +
  cell_temp :: flt
  dc_power_kw :: flt
  dc_power_after_loss_kw :: flt
  ac_power_kw :: flt
  energy_kwh :: flt

section \<open>Plane-of-array irradiance (src/models/irradiance.py)\<close>

definition get_solar_position ::
  "pvlib \<Rightarrow> irradiance_model \<Rightarrow> weather_row list \<Rightarrow> error + solar_position list" where
  "get_solar_position lib self weather_df =
     bindE (number (latitude self)) (\<lambda>lat.
     bindE (number (longitude self)) (\<lambda>lon.
     bindE (number (altitude self)) (\<lambda>alt.
     Inr (map (\<lambda>w. solarposition_get_solarposition lib (datetime w) lat lon alt (temp_air w))
            weather_df))))"

definition calculate_poa_components ::
  "pvlib \<Rightarrow> irradiance_model \<Rightarrow> weather_row list \<Rightarrow> solar_position list
     \<Rightarrow> error + irradiance_components list" where
  "calculate_poa_components lib self weather_df solar_pos =
     (let dni_extra = map (\<lambda>w. irradiance_get_extra_radiation lib (datetime w)) weather_df;
          airmass = map (\<lambda>sp. atmosphere_get_relative_airmass lib (apparent_zenith sp)) solar_pos;
          airmass_absolute = map (atmosphere_get_absolute_airmass lib) airmass
      in bindE (number (tilt self)) (\<lambda>surface_tilt.
         bindE (number (azimuth self)) (\<lambda>surface_azimuth.
         bindE (number (albedo self)) (\<lambda>alb.
         Inr (map (\<lambda>(w, sp, extra, am).
                     irradiance_get_total_irradiance lib surface_tilt surface_azimuth
                       (apparent_zenith sp) (sp_azimuth sp) (dni w) (ghi w) (dhi w) extra am alb)
                (zip weather_df (zip solar_pos (zip dni_extra airmass_absolute))))))))"

definition calculate_aoi ::
  "pvlib \<Rightarrow> irradiance_model \<Rightarrow> solar_position list \<Rightarrow> error + series" where
  "calculate_aoi lib self solar_pos =
     bindE (number (tilt self)) (\<lambda>surface_tilt.
     bindE (number (azimuth self)) (\<lambda>surface_azimuth.
     Inr (map (\<lambda>sp. irradiance_aoi lib surface_tilt surface_azimuth
                        (apparent_zenith sp) (sp_azimuth sp)) solar_pos)))"

text \<open>
  \<open>_calculate_iam\<close>: the physical model with \<open>n = 1.526\<close>, \<open>K = 4.0\<close>, \<open>L = 0.002\<close>, then
  \<open>fillna(0)\<close>, then \<open>clip(lower=0, upper=1)\<close>.
\<close>

definition calculate_iam :: "pvlib \<Rightarrow> series \<Rightarrow> series" where
  "calculate_iam lib aoi_values =
     (let iam_value = map (\<lambda>a. iam_physical lib a (Fin (1526 / 1000)) (Fin 4) (Fin (2 / 1000)))
                        aoi_values;
          iam_value1 = map (fillna (Fin 0)) iam_value;
          iam_value2 = map (clip (Some (Fin 0)) (Some (Fin 1))) iam_value1
      in iam_value2)"

text \<open>
  \<open>calculate_poa\<close>: the columns are assembled row by row; \<open>poa_effective\<close> is
  \<open>poa_global * iam\<close>, then \<open>clip(lower=0)\<close>.
\<close>

definition calculate_poa ::
  "pvlib \<Rightarrow> irradiance_model \<Rightarrow> weather_row list \<Rightarrow> error + poa_row list" where
  "calculate_poa lib self weather_df =
     bindE (get_solar_position lib self weather_df) (\<lambda>solar_pos.
     bindE (calculate_poa_components lib self weather_df solar_pos) (\<lambda>poa_components.
     bindE (calculate_aoi lib self solar_pos) (\<lambda>aoi_values.
       let iam_value = calculate_iam lib aoi_values
       in Inr (map (\<lambda>(w, sp, pc, a, i).
                      weather_row.extend w
                        (poa_row.fields
                           (apparent_zenith sp) (sp_azimuth sp)
                           (pc_poa_global pc) (pc_poa_direct pc) (pc_poa_diffuse pc)
                           (pc_poa_sky_diffuse pc) (pc_poa_ground_diffuse pc)
                           a i
                           (clip (Some (Fin 0)) None (f_mul (pc_poa_global pc) i))))
                 (zip weather_df (zip solar_pos (zip poa_components
                    (zip aoi_values iam_value))))))))"

section \<open>The run (src/core/pv_simulator.py)\<close>

text \<open>
  \<open>_format_results\<close>: keep \<open>energy_kwh\<close>, turn the index into the column \<open>datetime\<close>
  (\<open>reset_index\<close>), replace NaN by 0.
\<close>

definition format_results :: "sim_row list \<Rightarrow> (timestamp \<times> flt) list" where
  "format_results poa_df =
     (let results_df = map (\<lambda>r. (datetime r, energy_kwh r)) poa_df
      in map (\<lambda>(d, e). (d, fillna (Fin 0) e)) results_df)"

text \<open>
  \<open>run_simulation\<close> up to step 7: the frame \<open>poa_df\<close> with every stage's column. The
  weather frame is what \<open>fetch_tmy_data\<close> returned, or the exception it raised. The
  first three lines of the source print \<open>location['name']\<close>, \<open>system['capacity_kw']\<close>,
  \<open>system['tilt']\<close> and \<open>system['azimuth']\<close>, so those keys are read first.
\<close>

definition simulation_frame ::
  "pvlib \<Rightarrow> pv_simulator \<Rightarrow> error + weather_row list \<Rightarrow> error + sim_row list" where
  "simulation_frame lib self fetched =
     bindE (getitem (location self) ''name'') (\<lambda>_.
     bindE (getitem (system self) ''capacity_kw'') (\<lambda>_.
     bindE (getitem (system self) ''tilt'') (\<lambda>_.
     bindE (getitem (system self) ''azimuth'') (\<lambda>_.
     bindE fetched (\<lambda>weather_df.
     bindE (calculate_poa lib (irradiance_model self) weather_df) (\<lambda>poa_df.
     bindE (calculate_cell_temperature lib (temperature_model self)
              (map poa_global poa_df) (map temp_air poa_df) (map wind_speed poa_df))
       (\<lambda>cell_temps.
     bindE (calculate_dc_power lib self (map poa_effective poa_df) cell_temps) (\<lambda>dc_power.
       let dc_power_after_loss = apply_all_losses (loss_model self) dc_power
       in bindE (calculate_ac_power lib self dc_power_after_loss) (\<lambda>ac_power.
          Inr (map (\<lambda>(r, ct, dc, dcl, ac).
                      poa_row.extend r (sim_row.fields ct dc dcl ac ac))
                 (zip poa_df (zip cell_temps (zip dc_power
                    (zip dc_power_after_loss ac_power))))))))))))))"

definition run_simulation ::
  "pvlib \<Rightarrow> pv_simulator \<Rightarrow> error + weather_row list \<Rightarrow> error + (timestamp \<times> flt) list" where
  "run_simulation lib self fetched =
     bindE (simulation_frame lib self fetched) (\<lambda>poa_df. Inr (format_results poa_df))"

section \<open>Auxiliary notions for the proofs\<close>

text \<open>
  The row that \<open>calculate_poa\<close> produces for one weather row, once the six site values
  are known to be numbers. It is not a function of the program: \<open>calculate_poa_rows\<close>
  below proves that the program computes exactly these rows.
\<close>

definition poa_row_at ::
  "pvlib \<Rightarrow> flt \<Rightarrow> flt \<Rightarrow> flt \<Rightarrow> flt \<Rightarrow> flt \<Rightarrow> flt \<Rightarrow> weather_row \<Rightarrow> poa_row" where
  "poa_row_at lib lat lon alt tlt az al w =
     (let sp = solarposition_get_solarposition lib (datetime w) lat lon alt (temp_air w);
          extra = irradiance_get_extra_radiation lib (datetime w);
          am = atmosphere_get_absolute_airmass lib
                 (atmosphere_get_relative_airmass lib (apparent_zenith sp));
          pc = irradiance_get_total_irradiance lib tlt az (apparent_zenith sp) (sp_azimuth sp)
                 (dni w) (ghi w) (dhi w) extra am al;
          a = irradiance_aoi lib tlt az (apparent_zenith sp) (sp_azimuth sp);
          i = clip (Some (Fin 0)) (Some (Fin 1))
                (fillna (Fin 0) (iam_physical lib a (Fin (1526 / 1000)) (Fin 4) (Fin (2 / 1000))))
      in weather_row.extend w
           (poa_row.fields (apparent_zenith sp) (sp_azimuth sp)
              (pc_poa_global pc) (pc_poa_direct pc) (pc_poa_diffuse pc)
              (pc_poa_sky_diffuse pc) (pc_poa_ground_diffuse pc) a i
              (clip (Some (Fin 0)) None (f_mul (pc_poa_global pc) i))))"

text \<open>
  Every value a run reads from the four dicts is present, and is a number where the
  program computes with it; \<open>eta_inv_ref\<close> may be absent (it has a default).
\<close>

definition is_number :: "pyobj option \<Rightarrow> bool" where
  "is_number v = (case v of Some (Num x) \<Rightarrow> True | _ \<Rightarrow> False)"

definition runnable :: "params \<Rightarrow> params \<Rightarrow> params \<Rightarrow> params \<Rightarrow> bool" where
  "runnable location_params system_params module_params inverter_params =
     (location_params ''name'' \<noteq> None
    \<and> is_number (location_params ''latitude'')
    \<and> is_number (location_params ''longitude'')
    \<and> is_number (location_params ''altitude'')
    \<and> is_number (system_params ''capacity_kw'')
    \<and> is_number (system_params ''tilt'')
    \<and> is_number (system_params ''azimuth'')
    \<and> is_number (system_params ''albedo'')
    \<and> system_params ''mounting_type'' \<noteq> None
    \<and> is_number (module_params ''gamma_pmp'')
    \<and> is_number (module_params ''T_ref'')
    \<and> is_number (inverter_params ''pdc0'')
    \<and> is_number (inverter_params ''eta_inv_nom'')
    \<and> (inverter_params ''eta_inv_ref'' = None \<or> is_number (inverter_params ''eta_inv_ref''))
    \<and> is_number (inverter_params ''pac0''))"

text \<open>The simulator that main.py builds from the default configuration.\<close>

definition simulator :: pv_simulator where
  "simulator =
     \<lparr>location = LOCATION, system = SYSTEM, module = MODULE, inverter = INVERTER,
      loss_params = LOSSES,
      weather_fetcher =
        PVGISWeatherFetcher (Num (Fin (3130 / 100))) (Num (Fin (12062 / 100))) (Num (Fin 5)),
      irradiance_model =
        IrradianceModel (Num (Fin (3130 / 100))) (Num (Fin (12062 / 100))) (Num (Fin 5))
          (Num (Fin 3)) (Num (Fin 180)) (Num (Fin (2 / 10))),
      temperature_model = TemperatureModel (Str ''roof_mounted'') ''faiman'',
      loss_model = LOSSES\<rparr>"

text \<open>Two hours of weather, one by day and one by night, for evaluating a run.\<close>

definition sample_weather :: "weather_row list" where
  "sample_weather =
     [\<lparr>datetime = 12, ghi = Fin 500, dni = Fin 0, dhi = Fin 500, temp_air = Fin 20,
       wind_speed = Fin 1\<rparr>,
      \<lparr>datetime = 13, ghi = Fin 0, dni = Fin 0, dhi = Fin 0, temp_air = Fin 10,
       wind_speed = Fin 2\<rparr>]"

section \<open>The loss cascade\<close>

lemma f_gt_Fin [simp]: "f_gt (Fin a) (Fin b) = (b < a)"
  by (auto simp: f_gt_def f_lt_def)

lemma f_sub_Fin [simp]: "f_sub (Fin a) (Fin b) = Fin (a - b)"
  by (simp add: f_sub_def)

lemma scalar_cascade:
  "\<forall>(n, l) \<in> set ls. 0 \<le> l \<Longrightarrow>
   apply_all_losses_with f_mul (fractions ls) (Fin p) =
     Fin (p * prod_list (map (\<lambda>(n, l). 1 - l) ls))"
proof (induction ls arbitrary: p)
  case Nil
  show ?case by (simp add: apply_all_losses_with_def fractions_def)
next
  case (Cons a ls)
  obtain n l where a: "a = (n, l)" by (cases a)
  from Cons.prems a have l: "0 \<le> l" and rest: "\<forall>(n, l) \<in> set ls. 0 \<le> l" by auto
  have step: "apply_all_losses_with f_mul (fractions (a # ls)) (Fin p) =
      apply_all_losses_with f_mul (fractions ls) (Fin (if 0 < l then p * (1 - l) else p))"
    by (simp add: apply_all_losses_with_def fractions_def a)
  show ?case
  proof (cases "0 < l")
    case True
    with step Cons.IH [OF rest, of "p * (1 - l)"] show ?thesis
      by (simp add: a mult.assoc)
  next
    case False
    with l have "l = 0" by simp
    with step Cons.IH [OF rest, of p] show ?thesis
      by (simp add: a)
  qed
qed

lemma series_cascade:
  "\<forall>(n, l) \<in> set ls. 0 \<le> l \<Longrightarrow>
   apply_all_losses_with series_mul (fractions ls) (map Fin ps) =
     map (\<lambda>p. Fin (p * prod_list (map (\<lambda>(n, l). 1 - l) ls))) ps"
proof (induction ls arbitrary: ps)
  case Nil
  show ?case by (simp add: apply_all_losses_with_def fractions_def)
next
  case (Cons a ls)
  obtain n l where a: "a = (n, l)" by (cases a)
  from Cons.prems a have l: "0 \<le> l" and rest: "\<forall>(n, l) \<in> set ls. 0 \<le> l" by auto
  have step: "apply_all_losses_with series_mul (fractions (a # ls)) (map Fin ps) =
      apply_all_losses_with series_mul (fractions ls)
        (map Fin (if 0 < l then map (\<lambda>p. p * (1 - l)) ps else ps))"
    by (simp add: apply_all_losses_with_def fractions_def a series_mul_def comp_def)
  show ?case
  proof (cases "0 < l")
    case True
    with step Cons.IH [OF rest, of "map (\<lambda>p. p * (1 - l)) ps"] show ?thesis
      by (simp add: a mult.assoc comp_def)
  next
    case False
    with l have "l = 0" by simp
    with step Cons.IH [OF rest, of ps] show ?thesis
      by (simp add: a)
  qed
qed

lemma total_factor_product:
  "fold (\<lambda>(loss_name, loss_value) retention_factor.
           f_mul retention_factor (f_sub (Fin 1) loss_value)) (fractions ls) (Fin r) =
     Fin (r * prod_list (map (\<lambda>(n, l). 1 - l) ls))"
proof (induction ls arbitrary: r)
  case Nil
  show ?case by (simp add: fractions_def)
next
  case (Cons a ls)
  obtain n l where a: "a = (n, l)" by (cases a)
  from Cons.IH [of "r * (1 - l)"] show ?case
    by (simp add: fractions_def a mult.assoc)
qed

lemma product_permuted:
  fixes f :: "'a \<Rightarrow> real"
  assumes "mset xs = mset ys"
  shows "prod_list (map f xs) = prod_list (map f ys)"
proof -
  have "prod_list (map f xs) = prod_mset (image_mset f (mset xs))"
    by (simp add: prod_mset_prod_list [symmetric])
  also have "\<dots> = prod_mset (image_mset f (mset ys))"
    by (simp add: assms)
  also have "\<dots> = prod_list (map f ys)"
    by (simp add: prod_mset_prod_list [symmetric])
  finally show ?thesis .
qed

lemma product_without_zero_losses:
  "prod_list (map (\<lambda>(n, l). 1 - l) (filter (\<lambda>(n, l). l \<noteq> 0) ls)) =
   prod_list (map (\<lambda>(n, l). 1 - (l::real)) ls)"
  by (induction ls) auto

text \<open>
  Over the reals, that is with \<open>f_mul\<close> and \<open>f_sub\<close>, which do not round: for a loss
  profile whose fractions are not negative, the cascade is the power times the product of
  \<open>1 - l\<close> over all categories; that product is the total loss factor, it is the same
  for every reordering of the categories, and dropping the categories whose loss is zero
  changes neither.
\<close>

lemma loss_cascade_over_reals:
  assumes "\<forall>(n, l) \<in> set ls. 0 \<le> l \<and> l < 1"
    and "mset ls' = mset ls"
  shows "apply_all_losses_scalar (fractions ls) (Fin p) =
           Fin (p * prod_list (map (\<lambda>(n, l). 1 - l) ls))
       \<and> apply_all_losses (fractions ls) (map Fin ps) =
           map (\<lambda>p. Fin (p * prod_list (map (\<lambda>(n, l). 1 - l) ls))) ps
       \<and> get_total_loss_factor (fractions ls) = Fin (prod_list (map (\<lambda>(n, l). 1 - l) ls))
       \<and> apply_all_losses_scalar (fractions ls) (Fin p) =
           f_mul (Fin p) (get_total_loss_factor (fractions ls))
       \<and> get_total_loss_factor (fractions ls') = get_total_loss_factor (fractions ls)
       \<and> apply_all_losses_scalar (fractions ls') (Fin p) =
           apply_all_losses_scalar (fractions ls) (Fin p)
       \<and> apply_all_losses (fractions ls') (map Fin ps) =
           apply_all_losses (fractions ls) (map Fin ps)
       \<and> get_total_loss_factor (fractions (filter (\<lambda>(n, l). l \<noteq> 0) ls)) =
           get_total_loss_factor (fractions ls)
       \<and> apply_all_losses_scalar (fractions (filter (\<lambda>(n, l). l \<noteq> 0) ls)) (Fin p) =
           apply_all_losses_scalar (fractions ls) (Fin p)"
proof -
  from assms(1) have nn: "\<forall>(n, l) \<in> set ls. 0 \<le> l" by auto
  from assms have nn': "\<forall>(n, l) \<in> set ls'. 0 \<le> l"
    by (metis nn set_mset_mset)
  from nn have nnz: "\<forall>(n, l) \<in> set (filter (\<lambda>(n, l). l \<noteq> 0) ls). 0 \<le> l" by auto
  have perm: "prod_list (map (\<lambda>(n, l). 1 - l) ls') = prod_list (map (\<lambda>(n, l). 1 - l) ls)"
    by (rule product_permuted [OF assms(2)])
  have factor: "get_total_loss_factor (fractions xs) =
      Fin (prod_list (map (\<lambda>(n, l). 1 - l) xs))" for xs
    using total_factor_product [of xs 1] by (simp add: get_total_loss_factor_def)
  have scalar: "\<forall>(n, l) \<in> set xs. 0 \<le> l \<Longrightarrow> apply_all_losses_scalar (fractions xs) (Fin p) =
      Fin (p * prod_list (map (\<lambda>(n, l). 1 - l) xs))" for xs
    by (simp add: apply_all_losses_scalar_def scalar_cascade)
  have ser: "\<forall>(n, l) \<in> set xs. 0 \<le> l \<Longrightarrow> apply_all_losses (fractions xs) (map Fin ps) =
      map (\<lambda>p. Fin (p * prod_list (map (\<lambda>(n, l). 1 - l) xs))) ps" for xs
    by (simp add: apply_all_losses_def series_cascade)
  show ?thesis
    by (simp add: factor scalar [OF nn] scalar [OF nn'] scalar [OF nnz] ser [OF nn] ser [OF nn']
        perm product_without_zero_losses)
qed

subsection \<open>Rounding to the nearest double\<close>


lemma rne_of_int [simp]: "rne (of_int n) = n"
  by (simp add: rne_def)



lemma round_double_at:
  assumes "2 ^ 52 * 2 powr of_int e \<le> \<bar>x\<bar>" and "\<bar>x\<bar> < 2 ^ 53 * 2 powr of_int e"
  shows "round_double x = of_int (rne (x / 2 powr of_int e)) * 2 powr of_int e"
proof -
  have "0 < (2::real) ^ 52 * 2 powr of_int e" by simp
  with assms(1) have pos: "0 < \<bar>x\<bar>" by linarith
  have p52: "(2::real) powr 52 = 2 ^ 52" and p53: "(2::real) powr 53 = 2 ^ 53"
    using powr_realpow [of "2::real" 52] powr_realpow [of "2::real" 53] by simp_all
  have "\<lfloor>log 2 \<bar>x\<bar>\<rfloor> = e + 52"
    using assms by (simp add: floor_log_eq_powr_iff [OF pos] powr_add p52 p53 mult.commute add.assoc)
  with pos show ?thesis
    by (simp add: round_double_def)
qed

lemma round_double_scaled_up:
  assumes "2 ^ 52 \<le> \<bar>x\<bar> * 2 ^ k" and "\<bar>x\<bar> * 2 ^ k < 2 ^ 53"
  shows "round_double x = of_int (rne (x * 2 ^ k)) / 2 ^ k"
proof -
  have s: "2 powr of_int (- int k) = 1 / (2::real) ^ k"
    by (simp add: powr_minus powr_realpow field_simps)
  have "2 ^ 52 * (1 / 2 ^ k) \<le> \<bar>x\<bar>" and "\<bar>x\<bar> < 2 ^ 53 * (1 / 2 ^ k)"
    using assms by (simp_all add: field_simps)
  then have "round_double x =
      of_int (rne (x / 2 powr of_int (- int k))) * 2 powr of_int (- int k)"
    unfolding s [symmetric] by (rule round_double_at)
  then show ?thesis unfolding s by simp
qed

lemma round_double_scaled_down:
  assumes "2 ^ 52 * 2 ^ k \<le> \<bar>x\<bar>" and "\<bar>x\<bar> < 2 ^ 53 * 2 ^ k"
  shows "round_double x = of_int (rne (x / 2 ^ k)) * 2 ^ k"
proof -
  have s: "2 powr of_int (int k) = (2::real) ^ k"
    by (simp add: powr_realpow)
  from assms have "round_double x =
      of_int (rne (x / 2 powr of_int (int k))) * 2 powr of_int (int k)"
    unfolding s [symmetric] by (rule round_double_at)
  then show ?thesis unfolding s by simp
qed




lemma rne_numeral [simp]: "rne (numeral w) = numeral w"
  using rne_of_int [of "numeral w"] by simp

lemma rne_neg_numeral [simp]: "rne (- numeral w) = - numeral w"
  using rne_of_int [of "- numeral w"] by simp

lemma round_double_1 [simp]: "round_double 1 = 1"
  by (subst round_double_scaled_up [where k = 52]) simp_all


lemma d_mul_Fin [simp]: "d_mul (Fin a) (Fin b) = Fin (round_double (a * b))"
  by (simp add: d_mul_def rnd_def)

lemma d_sub_Fin [simp]: "d_sub (Fin a) (Fin b) = Fin (round_double (a - b))"
  by (simp add: d_sub_def rnd_def)













subsection \<open>The cascade in floating point\<close>























section \<open>Cell temperature at night\<close>

lemma bindE_Inr [simp]: "bindE (Inr x) f = f x"
  by (simp add: bindE_def)

lemma bindE_Inl [simp]: "bindE (Inl e) f = Inl e"
  by (simp add: bindE_def)

lemma length_series3 [simp]:
  "length (series3 f xs ys zs) = min (length xs) (min (length ys) (length zs))"
  by (simp add: series3_def)

lemma nth_series3:
  "t < length xs \<Longrightarrow> t < length ys \<Longrightarrow> t < length zs \<Longrightarrow>
   series3 f xs ys zs ! t = f (xs ! t) (ys ! t) (zs ! t)"
  by (simp add: series3_def)

lemma np_maximum_same [simp]: "np_maximum x x = x"
  by (cases x) (simp_all add: np_maximum_def)

lemma model_cell_temperature_returns:
  assumes "length ta = length pg" and "length ws = length pg"
  shows "\<exists>raw. model_cell_temperature lib (TemperatureModel mounting mdl) pg ta ws = Inr raw
           \<and> length raw = length pg"
  using assms
  by (simp add: model_cell_temperature_def TemperatureModel_def
      get_temperature_model_params_def param_def Let_def)

lemma post_process_night:
  assumes "length ta = length pg" and "length raw = length pg" and "t < length pg"
    and "f_le (pg ! t) (Fin 0)"
  shows "post_process pg ta raw ! t = clip (Some (Fin (- 40))) (Some (Fin 85)) (ta ! t)"
  using assms by (simp add: post_process_def Let_def nth_series3 np_where_def)

lemma length_post_process:
  "length ta = length pg \<Longrightarrow> length raw = length pg \<Longrightarrow>
   length (post_process pg ta raw) = length pg"
  by (simp add: post_process_def Let_def)

lemma clip_Fin_Fin:
  "lo \<le> hi \<Longrightarrow> clip (Some (Fin lo)) (Some (Fin hi)) (Fin x) = Fin (max lo (min hi x))"
  by (auto simp: clip_def drop_na_def clip_with_scalar_def py_min_def py_max_def
      f_lt_def f_gt_def f_ge_def Let_def)

text \<open>
  C2, as the code has it. At a timestep where \<open>poa_global <= 0\<close> the returned cell
  temperature is \<open>temp_air\<close> after the final clip to \<open>[-40, 85]\<close>: for a numeric ambient
  temperature \<open>x\<close> it is \<open>max (-40) (min 85 x)\<close>, and so equal to \<open>temp_air\<close> exactly
  whenever \<open>-40 <= x <= 85\<close>. This holds for every temperature model and mounting type
  and for every library function; the call returns a series of the input's length.
\<close>

theorem night_cell_temperature_is_clamped_ambient:
  assumes "length ta = length pg" and "length ws = length pg" and "t < length pg"
    and "f_le (pg ! t) (Fin 0)"
  shows "\<exists>ct. calculate_cell_temperature lib (TemperatureModel mounting mdl) pg ta ws = Inr ct
      \<and> length ct = length pg
      \<and> ct ! t = clip (Some (Fin (- 40))) (Some (Fin 85)) (ta ! t)
      \<and> (\<forall>x. ta ! t = Fin x \<longrightarrow> ct ! t = Fin (max (- 40) (min 85 x)))
      \<and> (\<forall>x. ta ! t = Fin x \<and> - 40 \<le> x \<and> x \<le> 85 \<longrightarrow> ct ! t = ta ! t)"
proof -
  from model_cell_temperature_returns [OF assms(1,2)] obtain raw where
    raw: "model_cell_temperature lib (TemperatureModel mounting mdl) pg ta ws = Inr raw"
    and len: "length raw = length pg" by blast
  let ?ct = "post_process pg ta raw"
  have run: "calculate_cell_temperature lib (TemperatureModel mounting mdl) pg ta ws = Inr ?ct"
    by (simp add: calculate_cell_temperature_def raw)
  have night: "?ct ! t = clip (Some (Fin (- 40))) (Some (Fin 85)) (ta ! t)"
    by (rule post_process_night [OF assms(1) len assms(3,4)])
  have num: "ta ! t = Fin x \<Longrightarrow> ?ct ! t = Fin (max (- 40) (min 85 x))" for x
    by (simp add: night clip_Fin_Fin)
  have same: "ta ! t = Fin x \<Longrightarrow> - 40 \<le> x \<Longrightarrow> x \<le> 85 \<Longrightarrow> ?ct ! t = ta ! t" for x
    by (simp add: num)
  show ?thesis
    using run length_post_process [OF assms(1) len] night num same by blast
qed

theorem night_cell_temperature_is_clamped_ambient_witness:
  "f_le ([Fin 0, Fin 500] ! 0) (Fin 0)
   \<and> calculate_cell_temperature sample_pvlib (TemperatureModel (Str ''roof_mounted'') ''faiman'')
       [Fin 0, Fin 500] [Fin 20, Fin 25] [Fin 1, Fin 1] = Inr [Fin 20, Fin (125 / 3)]"
  using night_cell_temperature_is_clamped_ambient
    [of "[Fin 20, Fin 25]" "[Fin 0, Fin 500]" "[Fin 1, Fin 1]" 0 sample_pvlib
        "Str ''roof_mounted''" "''faiman''"]
  by (simp add: calculate_cell_temperature_def model_cell_temperature_def TemperatureModel_def
      get_temperature_model_params_def param_def post_process_def series3_def Let_def
      sample_pvlib_def faiman_def np_where_def np_maximum_def clip_Fin_Fin)

text \<open>
  C2 as stated fails: on a night hour (\<open>poa_global = 0\<close>) with an ambient temperature of
  -50 degrees the returned cell temperature is -40, not -50.
\<close>

theorem night_cell_temperature_not_ambient:
  "f_le ([Fin 0] ! 0) (Fin 0)
   \<and> calculate_cell_temperature sample_pvlib (TemperatureModel (Str ''roof_mounted'') ''faiman'')
       [Fin 0] [Fin (- 50)] [Fin 1] = Inr [Fin (- 40)]
   \<and> [Fin (- 40)] ! 0 \<noteq> [Fin (- 50)] ! 0"
  by (simp add: calculate_cell_temperature_def model_cell_temperature_def TemperatureModel_def
      get_temperature_model_params_def param_def post_process_def series3_def Let_def
      sample_pvlib_def faiman_def np_where_def np_maximum_def clip_Fin_Fin)

section \<open>Stage by stage\<close>

lemma bindE_eq_Inr: "bindE m f = Inr y \<longleftrightarrow> (\<exists>x. m = Inr x \<and> f x = Inr y)"
  by (cases m) simp_all

lemma getitem_eq_Inr: "getitem d k = Inr v \<longleftrightarrow> d k = Some v"
  by (simp add: getitem_def split: option.splits)

lemma number_eq_Inr: "number v = Inr x \<longleftrightarrow> v = Num x"
  by (simp add: number_def split: pyobj.splits)

lemma param_eq_Inr: "param ps k = Inr v \<longleftrightarrow> map_of ps k = Some v"
  by (simp add: param_def split: option.splits)


lemma clip_lower_Fin: "clip (Some (Fin 0)) None (Fin x) = Fin (max 0 x)"
  by (auto simp: clip_def drop_na_def clip_with_scalar_def f_lt_def f_ge_def Let_def)

lemma clip_lower_nonneg: "x \<noteq> NaN \<Longrightarrow> f_le (Fin 0) (clip (Some (Fin 0)) None x)"
  by (cases x) (simp_all add: clip_def drop_na_def clip_with_scalar_def f_lt_def f_ge_def Let_def)

lemma clip_0_pac_bounds:
  assumes "0 \<le> p" and "x \<noteq> NaN"
  shows "f_le (Fin 0) (clip (Some (Fin 0)) (Some (Fin p)) x)"
    and "f_le (clip (Some (Fin 0)) (Some (Fin p)) x) (Fin p)"
  using assms
  by (cases x; auto simp: clip_def drop_na_def clip_with_scalar_def py_min_def py_max_def
      f_lt_def f_gt_def f_ge_def Let_def)+

lemma clip_0_pac_above:
  assumes "0 \<le> p" and "f_gt x (Fin p)"
  shows "clip (Some (Fin 0)) (Some (Fin p)) x = Fin p"
  using assms
  by (cases x; auto simp: clip_def drop_na_def clip_with_scalar_def py_min_def py_max_def
      f_lt_def f_gt_def f_ge_def Let_def)

lemma clip_0_pac_NaN: "clip (Some (Fin 0)) (Some (Fin p)) x = NaN \<longleftrightarrow> x = NaN"
  by (cases x; auto simp: clip_def drop_na_def clip_with_scalar_def py_min_def py_max_def
      f_lt_def f_gt_def f_ge_def Let_def)

lemma clip_0_NaN: "clip (Some (Fin 0)) None x = NaN \<longleftrightarrow> x = NaN"
  by (cases x; auto simp: clip_def drop_na_def clip_with_scalar_def f_ge_def Let_def)

lemma clip_unit_fillna:
  "f_le (Fin 0) (clip (Some (Fin 0)) (Some (Fin 1)) (fillna (Fin 0) x))
   \<and> f_le (clip (Some (Fin 0)) (Some (Fin 1)) (fillna (Fin 0) x)) (Fin 1)"
  by (cases x; auto simp: fillna_def clip_def drop_na_def clip_with_scalar_def py_min_def py_max_def
      f_lt_def f_gt_def f_ge_def Let_def)

lemma clip_unit_fillna_Fin:
  "\<exists>i. clip (Some (Fin 0)) (Some (Fin 1)) (fillna (Fin 0) x) = Fin i \<and> 0 \<le> i \<and> i \<le> 1"
  by (cases x; auto simp: fillna_def clip_def drop_na_def clip_with_scalar_def py_min_def py_max_def
      f_lt_def f_gt_def f_ge_def Let_def)

lemma calculate_poa_rows:
  assumes "latitude self = Num lat" and "longitude self = Num lon" and "altitude self = Num alt"
    and "tilt self = Num tlt" and "azimuth self = Num az" and "albedo self = Num al"
  shows "calculate_poa lib self weather = Inr (map (poa_row_at lib lat lon alt tlt az al) weather)"
proof -
  have "calculate_poa lib self weather = Inr rows \<Longrightarrow>
        rows = map (poa_row_at lib lat lon alt tlt az al) weather" for rows
    using assms
    apply (simp add: calculate_poa_def get_solar_position_def calculate_poa_components_def
      calculate_aoi_def calculate_iam_def number_def bindE_def Let_def)
    apply (rule nth_equalityI)
     apply (auto simp: poa_row_at_def Let_def)
    done
  moreover have "\<exists>rows. calculate_poa lib self weather = Inr rows"
    using assms
    by (simp add: calculate_poa_def get_solar_position_def calculate_poa_components_def
      calculate_aoi_def number_def bindE_def Let_def)
  ultimately show ?thesis by blast
qed

lemma calculate_poa_inversion:
  assumes "calculate_poa lib self weather = Inr poa"
  shows "\<exists>lat lon alt tlt az al.
           latitude self = Num lat \<and> longitude self = Num lon \<and> altitude self = Num alt
         \<and> tilt self = Num tlt \<and> azimuth self = Num az \<and> albedo self = Num al
         \<and> poa = map (poa_row_at lib lat lon alt tlt az al) weather"
proof -
  from assms obtain lat lon alt tlt az al where
    site: "latitude self = Num lat" "longitude self = Num lon" "altitude self = Num alt"
      "tilt self = Num tlt" "azimuth self = Num az" "albedo self = Num al"
    by (auto simp: calculate_poa_def get_solar_position_def calculate_poa_components_def
        calculate_aoi_def bindE_eq_Inr number_eq_Inr Let_def)
  with assms calculate_poa_rows [OF site, of lib weather] show ?thesis by simp
qed

lemma datetime_poa_row_at [simp]: "datetime (poa_row_at lib lat lon alt tlt az al w) = datetime w"
  by (simp add: poa_row_at_def Let_def weather_row.defs poa_row.defs)

lemma calculate_poa_length:
  assumes "calculate_poa lib self weather = Inr poa"
  shows "length poa = length weather" and "map datetime poa = map datetime weather"
  using calculate_poa_inversion [OF assms] by auto

lemma poa_row_at_fields:
  "iam (poa_row_at lib lat lon alt tlt az al w) =
     clip (Some (Fin 0)) (Some (Fin 1)) (fillna (Fin 0)
       (iam_physical lib (aoi (poa_row_at lib lat lon alt tlt az al w))
          (Fin (1526 / 1000)) (Fin 4) (Fin (2 / 1000))))"
  "poa_effective (poa_row_at lib lat lon alt tlt az al w) =
     clip (Some (Fin 0)) None (f_mul (poa_global (poa_row_at lib lat lon alt tlt az al w))
       (iam (poa_row_at lib lat lon alt tlt az al w)))"
  by (simp_all add: poa_row_at_def Let_def weather_row.defs poa_row.defs)

lemma model_cell_temperature_length:
  assumes "model_cell_temperature lib tm pg ta ws = Inr raw"
    and "length ta = length pg" and "length ws = length pg"
  shows "length raw = length pg"
  using assms
  by (auto simp: model_cell_temperature_def bindE_eq_Inr Let_def split: if_splits)

lemma calculate_cell_temperature_length:
  assumes "calculate_cell_temperature lib tm pg ta ws = Inr cts"
    and "length ta = length pg" and "length ws = length pg"
  shows "length cts = length pg"
  using assms
  by (auto simp: calculate_cell_temperature_def bindE_eq_Inr length_post_process
      dest: model_cell_temperature_length)

lemma calculate_dc_power_returns:
  assumes "system self ''capacity_kw'' = Some (Num pdc0)"
    and "module self ''gamma_pmp'' = Some (Num g)"
    and "module self ''T_ref'' = Some (Num tr)"
  shows "calculate_dc_power lib self poas cts =
     Inr (map (clip (Some (Fin 0)) None)
            (map2 (\<lambda>e c. pvsystem_pvwatts_dc lib e c pdc0 g tr) poas cts))"
  using assms by (simp add: calculate_dc_power_def getitem_def number_def Let_def)

lemma calculate_dc_power_inversion:
  assumes "calculate_dc_power lib self poas cts = Inr dc"
  shows "\<exists>pdc0 g tr. system self ''capacity_kw'' = Some (Num pdc0)
         \<and> module self ''gamma_pmp'' = Some (Num g) \<and> module self ''T_ref'' = Some (Num tr)
         \<and> dc = map (clip (Some (Fin 0)) None)
                  (map2 (\<lambda>e c. pvsystem_pvwatts_dc lib e c pdc0 g tr) poas cts)"
  using assms
  by (auto simp: calculate_dc_power_def bindE_eq_Inr getitem_eq_Inr number_eq_Inr Let_def)

lemma calculate_ac_power_returns:
  assumes "inverter self ''pdc0'' = Some (Num pdc0)"
    and "inverter self ''eta_inv_nom'' = Some (Num eta_nom)"
    and "get_default (inverter self) ''eta_inv_ref'' (Num (Fin (9637 / 10000))) = Num eta_ref"
    and "inverter self ''pac0'' = Some (Num pac0)"
  shows "calculate_ac_power lib self dcs =
     Inr (map (clip (Some (Fin 0)) (Some pac0))
            (map (\<lambda>p. inverter_pvwatts lib p pdc0 eta_nom eta_ref) dcs))"
  using assms by (simp add: calculate_ac_power_def getitem_def number_def Let_def)

lemma calculate_ac_power_inversion:
  assumes "calculate_ac_power lib self dcs = Inr ac"
  shows "\<exists>pdc0 eta_nom eta_ref pac0. inverter self ''pdc0'' = Some (Num pdc0)
         \<and> inverter self ''eta_inv_nom'' = Some (Num eta_nom)
         \<and> get_default (inverter self) ''eta_inv_ref'' (Num (Fin (9637 / 10000))) = Num eta_ref
         \<and> inverter self ''pac0'' = Some (Num pac0)
         \<and> ac = map (clip (Some (Fin 0)) (Some pac0))
                  (map (\<lambda>p. inverter_pvwatts lib p pdc0 eta_nom eta_ref) dcs)"
  using assms
  by (auto simp: calculate_ac_power_def bindE_eq_Inr getitem_eq_Inr number_eq_Inr Let_def)

lemma losses_Nil: "apply_all_losses_with m [] p = p"
  by (simp add: apply_all_losses_with_def)

lemma losses_Cons:
  "apply_all_losses_with m ((n, v) # L) p =
     apply_all_losses_with m L (if f_gt v (Fin 0) then m p (f_sub (Fin 1) v) else p)"
  by (simp add: apply_all_losses_with_def)

lemma apply_all_losses_elementwise:
  "apply_all_losses L xs = map (apply_all_losses_scalar L) xs"
proof -
  have "apply_all_losses_with series_mul L xs = map (\<lambda>x. apply_all_losses_with f_mul L x) xs"
  proof (induction L arbitrary: xs)
    case Nil
    show ?case by (simp add: losses_Nil)
  next
    case (Cons a L)
    obtain n v where a: "a = (n, v)" by (cases a)
    have "apply_all_losses_with series_mul (a # L) xs =
        apply_all_losses_with series_mul L
          (if f_gt v (Fin 0) then series_mul xs (f_sub (Fin 1) v) else xs)"
      by (simp add: a losses_Cons)
    also have "\<dots> = map (\<lambda>x. apply_all_losses_with f_mul L x)
          (if f_gt v (Fin 0) then series_mul xs (f_sub (Fin 1) v) else xs)"
      by (rule Cons.IH)
    also have "\<dots> = map (\<lambda>x. apply_all_losses_with f_mul (a # L) x) xs"
      by (simp add: a losses_Cons series_mul_def comp_def)
    finally show ?case .
  qed
  then show ?thesis by (simp add: apply_all_losses_def apply_all_losses_scalar_def)
qed

lemma length_apply_all_losses [simp]: "length (apply_all_losses L xs) = length xs"
  by (simp add: apply_all_losses_elementwise)

lemma sim_rows_columns:
  assumes "length cts = length poa" and "length dc = length poa"
    and "length dcl = length poa" and "length ac = length poa"
  defines "df \<equiv> map (\<lambda>(r, ct, dc, dcl, ac). poa_row.extend r (sim_row.fields ct dc dcl ac ac))
                 (zip poa (zip cts (zip dc (zip dcl ac))))"
  shows "length df = length poa" and "map datetime df = map datetime poa"
    and "map cell_temp df = cts" and "map dc_power_kw df = dc"
    and "map dc_power_after_loss_kw df = dcl" and "map ac_power_kw df = ac"
    and "map energy_kwh df = ac"
  using assms
  by (auto intro!: nth_equalityI simp: poa_row.defs sim_row.defs)

lemma simulation_frame_inversion:
  assumes "simulation_frame lib self fetched = Inr df"
  shows "\<exists>weather poa cts dc ac.
      fetched = Inr weather
    \<and> calculate_poa lib (irradiance_model self) weather = Inr poa
    \<and> calculate_cell_temperature lib (temperature_model self)
         (map poa_global poa) (map temp_air poa) (map wind_speed poa) = Inr cts
    \<and> calculate_dc_power lib self (map poa_effective poa) cts = Inr dc
    \<and> calculate_ac_power lib self (apply_all_losses (loss_model self) dc) = Inr ac
    \<and> length df = length weather \<and> map datetime df = map datetime weather
    \<and> map cell_temp df = cts \<and> map dc_power_kw df = dc
    \<and> map dc_power_after_loss_kw df = apply_all_losses (loss_model self) dc
    \<and> map ac_power_kw df = ac \<and> map energy_kwh df = ac"
proof -
  from assms obtain weather poa cts dc ac where
    fetched: "fetched = Inr weather"
    and poa: "calculate_poa lib (irradiance_model self) weather = Inr poa"
    and cts: "calculate_cell_temperature lib (temperature_model self)
         (map poa_global poa) (map temp_air poa) (map wind_speed poa) = Inr cts"
    and dc: "calculate_dc_power lib self (map poa_effective poa) cts = Inr dc"
    and ac: "calculate_ac_power lib self (apply_all_losses (loss_model self) dc) = Inr ac"
    and df: "df = map (\<lambda>(r, ct, dc, dcl, ac). poa_row.extend r (sim_row.fields ct dc dcl ac ac))
                 (zip poa (zip cts (zip dc (zip (apply_all_losses (loss_model self) dc) ac))))"
    by (auto simp: simulation_frame_def bindE_eq_Inr Let_def)
  have l1: "length cts = length poa"
    using calculate_cell_temperature_length [OF cts] by simp
  have l2: "length dc = length poa"
    using calculate_dc_power_inversion [OF dc] l1 by auto
  have l3: "length (apply_all_losses (loss_model self) dc) = length poa"
    using l2 by simp
  have l4: "length ac = length poa"
    using calculate_ac_power_inversion [OF ac] l2 by auto
  note cols = sim_rows_columns [OF l1 l2 l3 l4, folded df]
  from fetched poa cts dc ac cols calculate_poa_length [OF poa] show ?thesis
    by auto
qed

lemma is_number_iff: "is_number v \<longleftrightarrow> (\<exists>x. v = Some (Num x))"
  by (auto simp: is_number_def split: option.splits pyobj.splits)

lemma PVSimulator_inversion:
  assumes "PVSimulator loc sys mdl ivt L = Inr self"
  shows "\<exists>lat lon alt tlt az alb mounting.
       loc ''latitude'' = Some lat \<and> loc ''longitude'' = Some lon \<and> loc ''altitude'' = Some alt
     \<and> sys ''tilt'' = Some tlt \<and> sys ''azimuth'' = Some az \<and> sys ''albedo'' = Some alb
     \<and> sys ''mounting_type'' = Some mounting
     \<and> self = \<lparr>location = loc, system = sys, module = mdl, inverter = ivt, loss_params = L,
          weather_fetcher = PVGISWeatherFetcher lat lon alt,
          irradiance_model = IrradianceModel lat lon alt tlt az alb,
          temperature_model = TemperatureModel mounting ''faiman'',
          loss_model = L\<rparr>"
  using assms by (auto simp: PVSimulator_def bindE_eq_Inr getitem_eq_Inr)

lemma simulation_frame_returns:
  assumes built: "PVSimulator loc sys mdl ivt L = Inr self" and ok: "runnable loc sys mdl ivt"
  shows "\<exists>df. simulation_frame lib self (Inr weather) = Inr df"
proof -
  from ok obtain lat lon alt tlt az alb cap g tr p0 en pac nm mounting where
    vals: "loc ''latitude'' = Some (Num lat)" "loc ''longitude'' = Some (Num lon)"
      "loc ''altitude'' = Some (Num alt)" "sys ''tilt'' = Some (Num tlt)"
      "sys ''azimuth'' = Some (Num az)" "sys ''albedo'' = Some (Num alb)"
      "sys ''capacity_kw'' = Some (Num cap)" "mdl ''gamma_pmp'' = Some (Num g)"
      "mdl ''T_ref'' = Some (Num tr)" "ivt ''pdc0'' = Some (Num p0)"
      "ivt ''eta_inv_nom'' = Some (Num en)" "ivt ''pac0'' = Some (Num pac)"
      "loc ''name'' = Some nm" "sys ''mounting_type'' = Some mounting"
    unfolding runnable_def is_number_iff by auto
  from ok obtain er where
    er: "get_default ivt ''eta_inv_ref'' (Num (Fin (9637 / 10000))) = Num er"
    unfolding runnable_def is_number_iff by (auto simp: get_default_def)
  from PVSimulator_inversion [OF built] vals have self:
    "self = \<lparr>location = loc, system = sys, module = mdl, inverter = ivt, loss_params = L,
          weather_fetcher = PVGISWeatherFetcher (Num lat) (Num lon) (Num alt),
          irradiance_model = IrradianceModel (Num lat) (Num lon) (Num alt) (Num tlt) (Num az) (Num alb),
          temperature_model = TemperatureModel mounting ''faiman'',
          loss_model = L\<rparr>"
    by auto
  let ?poa = "map (poa_row_at lib lat lon alt tlt az alb) weather"
  have poa: "calculate_poa lib (irradiance_model self) weather = Inr ?poa"
    by (rule calculate_poa_rows) (simp_all add: self IrradianceModel_def)
  have "\<exists>raw. model_cell_temperature lib (TemperatureModel mounting ''faiman'')
      (map poa_global ?poa) (map temp_air ?poa) (map wind_speed ?poa) = Inr raw
      \<and> length raw = length (map poa_global ?poa)"
    by (rule model_cell_temperature_returns) simp_all
  then obtain raw where raw: "model_cell_temperature lib (TemperatureModel mounting ''faiman'')
      (map poa_global ?poa) (map temp_air ?poa) (map wind_speed ?poa) = Inr raw"
    by blast
  have tm: "temperature_model self = TemperatureModel mounting ''faiman''"
    by (simp add: self)
  have cts: "calculate_cell_temperature lib (temperature_model self)
      (map poa_global ?poa) (map temp_air ?poa) (map wind_speed ?poa) =
      Inr (post_process (map poa_global ?poa) (map temp_air ?poa) raw)"
    unfolding calculate_cell_temperature_def tm raw by simp
  have dc: "calculate_dc_power lib self ps cs =
     Inr (map (clip (Some (Fin 0)) None)
            (map2 (\<lambda>e c. pvsystem_pvwatts_dc lib e c cap g tr) ps cs))" for ps cs
    by (rule calculate_dc_power_returns) (simp_all add: self vals)
  have ac: "calculate_ac_power lib self ds =
     Inr (map (clip (Some (Fin 0)) (Some pac))
            (map (\<lambda>p. inverter_pvwatts lib p p0 en er) ds))" for ds
    by (rule calculate_ac_power_returns) (simp_all add: self vals er)
  have keys: "getitem (location self) ''name'' = Inr nm"
    "getitem (system self) ''capacity_kw'' = Inr (Num cap)"
    "getitem (system self) ''tilt'' = Inr (Num tlt)"
    "getitem (system self) ''azimuth'' = Inr (Num az)"
    by (simp_all add: self vals getitem_def)
  show ?thesis
    unfolding simulation_frame_def keys bindE_Inr poa cts dc ac Let_def by (rule exI) (rule refl)
qed

section \<open>The default configuration, evaluated\<close>

lemma simulator_built: "PVSimulator LOCATION SYSTEM MODULE INVERTER LOSSES = Inr simulator"
  by (simp add: PVSimulator_def LOCATION_def SYSTEM_def getitem_def simulator_def)

lemma simulator_dicts:
  "system simulator = SYSTEM" "module simulator = MODULE" "inverter simulator = INVERTER"
  "location simulator = LOCATION" "loss_model simulator = LOSSES"
  by (simp_all add: simulator_def)

lemmas model_defs =
  simulation_frame_def run_simulation_def format_results_def
  calculate_poa_def get_solar_position_def calculate_poa_components_def calculate_aoi_def
  calculate_iam_def calculate_cell_temperature_def model_cell_temperature_def post_process_def
  calculate_dc_power_def calculate_ac_power_def apply_all_losses_def apply_all_losses_with_def
  series_mul_def series3_def
  getitem_def get_default_def number_def param_def
  fillna_def np_where_def np_maximum_def clip_def clip_with_scalar_def drop_na_def py_min_def
  py_max_def f_lt_def f_gt_def f_ge_def f_sub_def
  TemperatureModel_def get_temperature_model_params_def IrradianceModel_def
  PVGISWeatherFetcher_def
  sample_pvlib_def faiman_def pvwatts_dc_def
  simulator_def LOCATION_def SYSTEM_def MODULE_def INVERTER_def LOSSES_def fractions_def
  sample_weather_def
  weather_row.defs poa_row.defs sim_row.defs

lemma sample_run:
  "run_simulation sample_pvlib simulator (Inr sample_weather) =
     Inr [(12, Fin (849822217152752151 / 2000000000000000)), (13, Fin 0)]"
  by (simp add: model_defs Let_def)

section \<open>DC power\<close>




section \<open>Bounds on DC and AC power\<close>

text \<open>
  C4, as the code has it. With a rated AC output \<open>pac0 >= 0\<close>: every DC power value is
  NaN or \<open>>= 0\<close>, and every AC power value is NaN or lies in \<open>[0, pac0]\<close>, in the stage
  functions and in the columns of a run (\<open>clip\<close> leaves NaN alone). The DC power of a
  timestep is NaN exactly when the library's DC function returned NaN there, and the AC
  power is NaN exactly when the library's inverter function returned NaN there. Whenever
  the value of the inverter function exceeds \<open>pac0\<close>, the AC power of that hour is
  exactly \<open>pac0\<close>.
\<close>

theorem power_bounds:
  assumes "inverter self ''pac0'' = Some (Num (Fin pac0))" and "0 \<le> pac0"
  shows "(\<forall>dc. calculate_dc_power lib self poas cts = Inr dc \<longrightarrow>
            (\<forall>x \<in> set dc. x \<noteq> NaN \<longrightarrow> f_le (Fin 0) x))
       \<and> (\<forall>ac. calculate_ac_power lib self dcs = Inr ac \<longrightarrow>
            length ac = length dcs
          \<and> (\<forall>x \<in> set ac. x \<noteq> NaN \<longrightarrow> f_le (Fin 0) x \<and> f_le x (Fin pac0)))
       \<and> (\<forall>df. simulation_frame lib self fetched = Inr df \<longrightarrow>
            (\<forall>r \<in> set df.
               (dc_power_kw r \<noteq> NaN \<longrightarrow> f_le (Fin 0) (dc_power_kw r))
             \<and> (ac_power_kw r \<noteq> NaN \<longrightarrow>
                  f_le (Fin 0) (ac_power_kw r) \<and> f_le (ac_power_kw r) (Fin pac0))))
       \<and> (\<forall>pdc0 eta_nom eta_ref t.
            inverter self ''pdc0'' = Some (Num pdc0)
          \<and> inverter self ''eta_inv_nom'' = Some (Num eta_nom)
          \<and> get_default (inverter self) ''eta_inv_ref'' (Num (Fin (9637 / 10000))) = Num eta_ref
          \<and> t < length dcs \<longrightarrow>
            (\<exists>ac. calculate_ac_power lib self dcs = Inr ac
               \<and> (f_gt (inverter_pvwatts lib (dcs ! t) pdc0 eta_nom eta_ref) (Fin pac0) \<longrightarrow>
                    ac ! t = Fin pac0)
               \<and> (ac ! t = NaN \<longleftrightarrow>
                    inverter_pvwatts lib (dcs ! t) pdc0 eta_nom eta_ref = NaN)))
       \<and> (\<forall>cap g tr t.
            system self ''capacity_kw'' = Some (Num cap)
          \<and> module self ''gamma_pmp'' = Some (Num g)
          \<and> module self ''T_ref'' = Some (Num tr)
          \<and> length cts = length poas \<and> t < length poas \<longrightarrow>
            (\<exists>dc. calculate_dc_power lib self poas cts = Inr dc
               \<and> (dc ! t = NaN \<longleftrightarrow>
                    pvsystem_pvwatts_dc lib (poas ! t) (cts ! t) cap g tr = NaN)))"
proof -
  have dc_ok: "\<forall>x \<in> set dc. x \<noteq> NaN \<longrightarrow> f_le (Fin 0) x"
    if "calculate_dc_power lib self ps cs = Inr dc" for ps cs dc
    using calculate_dc_power_inversion [OF that]
    by (auto simp: clip_0_NaN clip_lower_nonneg)
  have ac_ok: "length ac = length ds
      \<and> (\<forall>x \<in> set ac. x \<noteq> NaN \<longrightarrow> f_le (Fin 0) x \<and> f_le x (Fin pac0))"
    if "calculate_ac_power lib self ds = Inr ac" for ds ac
    using calculate_ac_power_inversion [OF that] assms
    by (auto simp: clip_0_pac_NaN clip_0_pac_bounds)
  have frame_ok: "(dc_power_kw r \<noteq> NaN \<longrightarrow> f_le (Fin 0) (dc_power_kw r))
             \<and> (ac_power_kw r \<noteq> NaN \<longrightarrow>
                  f_le (Fin 0) (ac_power_kw r) \<and> f_le (ac_power_kw r) (Fin pac0))"
    if df: "simulation_frame lib self fetched = Inr df" and r: "r \<in> set df" for df r
  proof -
    from simulation_frame_inversion [OF df] obtain poa :: "poa_row list" and cs dc ac where
      dc: "calculate_dc_power lib self (map poa_effective poa) cs = Inr dc"
      and ac: "calculate_ac_power lib self (apply_all_losses (loss_model self) dc) = Inr ac"
      and cols: "map dc_power_kw df = dc" "map ac_power_kw df = ac"
      by blast
    from r cols have "dc_power_kw r \<in> set dc" and "ac_power_kw r \<in> set ac" by auto
    with dc_ok [OF dc] ac_ok [OF ac] show ?thesis by blast
  qed
  have clamp: "\<exists>ac. calculate_ac_power lib self dcs = Inr ac
               \<and> (f_gt (inverter_pvwatts lib (dcs ! t) pdc0 eta_nom eta_ref) (Fin pac0) \<longrightarrow>
                    ac ! t = Fin pac0)
               \<and> (ac ! t = NaN \<longleftrightarrow>
                    inverter_pvwatts lib (dcs ! t) pdc0 eta_nom eta_ref = NaN)"
    if "inverter self ''pdc0'' = Some (Num pdc0)"
      and "inverter self ''eta_inv_nom'' = Some (Num eta_nom)"
      and "get_default (inverter self) ''eta_inv_ref'' (Num (Fin (9637 / 10000))) = Num eta_ref"
      and "t < length dcs" for pdc0 eta_nom eta_ref t
    using calculate_ac_power_returns [OF that(1-3) assms(1), of lib dcs] that(4) assms(2)
    by (simp add: clip_0_pac_NaN clip_0_pac_above)
  have dc_nan: "\<exists>dc. calculate_dc_power lib self poas cts = Inr dc
               \<and> (dc ! t = NaN \<longleftrightarrow>
                    pvsystem_pvwatts_dc lib (poas ! t) (cts ! t) cap g tr = NaN)"
    if "system self ''capacity_kw'' = Some (Num cap)"
      and "module self ''gamma_pmp'' = Some (Num g)"
      and "module self ''T_ref'' = Some (Num tr)"
      and "length cts = length poas" and "t < length poas" for cap g tr t
    using calculate_dc_power_returns [OF that(1-3), of lib poas cts] that(4,5)
    by (simp add: clip_0_NaN)
  show ?thesis
  proof (intro conjI allI impI)
    fix dc assume "calculate_dc_power lib self poas cts = Inr dc"
    then show "\<forall>x \<in> set dc. x \<noteq> NaN \<longrightarrow> f_le (Fin 0) x" by (rule dc_ok)
  next
    fix ac assume "calculate_ac_power lib self dcs = Inr ac"
    from ac_ok [OF this] show "length ac = length dcs" ..
  next
    fix ac assume "calculate_ac_power lib self dcs = Inr ac"
    from ac_ok [OF this]
    show "\<forall>x \<in> set ac. x \<noteq> NaN \<longrightarrow> f_le (Fin 0) x \<and> f_le x (Fin pac0)" ..
  next
    fix df assume df: "simulation_frame lib self fetched = Inr df"
    show "\<forall>r \<in> set df.
               (dc_power_kw r \<noteq> NaN \<longrightarrow> f_le (Fin 0) (dc_power_kw r))
             \<and> (ac_power_kw r \<noteq> NaN \<longrightarrow>
                  f_le (Fin 0) (ac_power_kw r) \<and> f_le (ac_power_kw r) (Fin pac0))"
    proof
      fix r assume "r \<in> set df"
      with df show "(dc_power_kw r \<noteq> NaN \<longrightarrow> f_le (Fin 0) (dc_power_kw r))
             \<and> (ac_power_kw r \<noteq> NaN \<longrightarrow>
                  f_le (Fin 0) (ac_power_kw r) \<and> f_le (ac_power_kw r) (Fin pac0))"
        by (rule frame_ok)
    qed
  next
    fix pdc0 eta_nom eta_ref t
    assume "inverter self ''pdc0'' = Some (Num pdc0)
          \<and> inverter self ''eta_inv_nom'' = Some (Num eta_nom)
          \<and> get_default (inverter self) ''eta_inv_ref'' (Num (Fin (9637 / 10000))) = Num eta_ref
          \<and> t < length dcs"
    then show "\<exists>ac. calculate_ac_power lib self dcs = Inr ac
               \<and> (f_gt (inverter_pvwatts lib (dcs ! t) pdc0 eta_nom eta_ref) (Fin pac0) \<longrightarrow>
                    ac ! t = Fin pac0)
               \<and> (ac ! t = NaN \<longleftrightarrow>
                    inverter_pvwatts lib (dcs ! t) pdc0 eta_nom eta_ref = NaN)"
      using clamp by simp
  next
    fix cap g tr t
    assume "system self ''capacity_kw'' = Some (Num cap)
          \<and> module self ''gamma_pmp'' = Some (Num g)
          \<and> module self ''T_ref'' = Some (Num tr)
          \<and> length cts = length poas \<and> t < length poas"
    then show "\<exists>dc. calculate_dc_power lib self poas cts = Inr dc
               \<and> (dc ! t = NaN \<longleftrightarrow>
                    pvsystem_pvwatts_dc lib (poas ! t) (cts ! t) cap g tr = NaN)"
      using dc_nan by simp
  qed
qed

theorem power_bounds_witness:
  "calculate_ac_power perez_pvlib (simulator\<lparr>inverter := INVERTER(''pac0'' \<mapsto> Num (Fin 900))\<rparr>)
       [Fin 1100, Fin 500, NaN]
     = Inr [Fin 900, Fin (4732910 / 9637), NaN]
   \<and> f_gt (inverter_pvwatts perez_pvlib (Fin 1100) (Fin 1000) (Fin (98 / 100)) (Fin (9637 / 10000)))
        (Fin 900)
   \<and> calculate_dc_power perez_pvlib (simulator\<lparr>inverter := INVERTER(''pac0'' \<mapsto> Num (Fin 900))\<rparr>)
       [Fin 800, Fin 800, NaN] [Fin 45, Fin 400, Fin 20]
     = Inr [Fin 744, Fin 0, NaN]"
proof -
  let ?self = "simulator\<lparr>inverter := INVERTER(''pac0'' \<mapsto> Num (Fin 900))\<rparr>"
  have h1: "inverter ?self ''pac0'' = Some (Num (Fin 900))"
    by simp
  have h2: "(0::real) \<le> 900" by simp
  have raw: "inverter_pvwatts perez_pvlib (Fin 1100) (Fin 1000) (Fin (98 / 100)) (Fin (9637 / 10000))
      = Fin 980"
    by (simp add: perez_pvlib_def pvwatts_inverter_def np_minimum_def np_maximum_def f_sub_def
        Let_def)
  have ac: "calculate_ac_power perez_pvlib ?self [Fin 1100, Fin 500, NaN]
      = Inr [Fin 900, Fin (4732910 / 9637), NaN]"
    by (simp add: calculate_ac_power_def INVERTER_def getitem_def get_default_def
        number_def perez_pvlib_def pvwatts_inverter_def np_minimum_def np_maximum_def f_sub_def
        Let_def clip_Fin_Fin clip_0_pac_NaN)
  have dc: "calculate_dc_power perez_pvlib ?self [Fin 800, Fin 800, NaN] [Fin 45, Fin 400, Fin 20]
        = Inr [Fin 744, Fin 0, NaN]"
    by (simp add: calculate_dc_power_def simulator_def SYSTEM_def MODULE_def getitem_def
        number_def perez_pvlib_def sample_pvlib_def pvwatts_dc_def clip_lower_Fin clip_0_NaN)
  from power_bounds [OF h1 h2, of perez_pvlib "[Fin 800, Fin 800, NaN]"
      "[Fin 45, Fin 400, Fin 20]" "[Fin 1100, Fin 500, NaN]" "Inr []"] ac dc raw
  show ?thesis by simp
qed

text \<open>
  C4 as stated fails at two places. In a run over two hours of weather, the second with
  no irradiance while the sun is up, the plane-of-array irradiance of that hour is NaN,
  and so are its DC power and its AC power: neither is \<open>>= 0\<close>, and the AC power is not
  \<open><= pac0\<close>. And with the default inverter (\<open>pdc0 = 1000\<close>, \<open>eta_inv_nom = 0.98\<close>,
  \<open>pac0 = 1000\<close>) a DC power of 1100 gives an AC power of 980, not 1000: the efficiency
  curve gives about 1076.8, above \<open>pac0\<close>, but the inverter function of pvlib caps its
  own result at \<open>eta_inv_nom * pdc0 = 980\<close> before the program clips at \<open>pac0\<close>.
\<close>

theorem power_undefined_at_zero_irradiance:
  "map_sum id (map dc_power_kw) (simulation_frame perez_pvlib simulator (Inr sample_weather))
     = Inr [Fin (5755 / 12), NaN]
   \<and> map_sum id (map ac_power_kw) (simulation_frame perez_pvlib simulator (Inr sample_weather))
     = Inr [Fin (164044311152977839111314839366439892431 / 385480000000000000000000000000000000),
            NaN]
   \<and> \<not> f_le (Fin 0) NaN
   \<and> \<not> f_le NaN (Fin 1000)
   \<and> inverter simulator ''pac0'' = Some (Num (Fin 1000))
   \<and> calculate_ac_power perez_pvlib simulator [Fin 1100] = Inr [Fin 980]"
proof -
  have dc: "map_sum id (map dc_power_kw)
      (simulation_frame perez_pvlib simulator (Inr sample_weather)) = Inr [Fin (5755 / 12), NaN]"
    by (simp add: model_defs perez_pvlib_def Let_def)
  have ac: "map_sum id (map ac_power_kw)
      (simulation_frame perez_pvlib simulator (Inr sample_weather))
     = Inr [Fin (164044311152977839111314839366439892431 / 385480000000000000000000000000000000),
            NaN]"
    by (simp add: model_defs perez_pvlib_def pvwatts_inverter_def np_minimum_def Let_def)
  have cmp: "\<not> f_le (Fin 0) NaN" "\<not> f_le NaN (Fin 1000)"
    by (simp_all add:)
  have pac: "inverter simulator ''pac0'' = Some (Num (Fin 1000))"
    by (simp add: simulator_dicts INVERTER_def)
  have cap: "calculate_ac_power perez_pvlib simulator [Fin 1100] = Inr [Fin 980]"
    by (simp add: calculate_ac_power_def simulator_dicts INVERTER_def getitem_def get_default_def
        number_def perez_pvlib_def pvwatts_inverter_def np_minimum_def np_maximum_def f_sub_def
        Let_def clip_Fin_Fin)
  from dc ac cmp pac cap show ?thesis by (intro conjI)
qed

section \<open>Incidence-angle modifier and effective irradiance\<close>

text \<open>
  C5, as the code has it. The incidence-angle modifier of every timestep lies in
  \<open>[0, 1]\<close>, whatever the library returned (NaN counts as 0). \<open>poa_effective\<close> is
  \<open>poa_global * iam\<close> clipped at 0, and \<open>poa_global\<close> itself is neither filled nor clipped:
  where it is a number \<open>g >= 0\<close>, \<open>poa_effective\<close> is a number between 0 and \<open>g\<close>; where
  it is a negative number, \<open>poa_effective\<close> is 0 (above \<open>poa_global\<close>); where it is NaN,
  \<open>poa_effective\<close> is NaN. \<open>calculate_poa\<close> returns one row for each weather row, and it
  returns whenever the six site values are numbers.
\<close>

theorem iam_and_effective_poa_bounds:
  "(\<forall>x \<in> set (calculate_iam lib aois). f_le (Fin 0) x \<and> f_le x (Fin 1))
   \<and> (\<forall>poa. calculate_poa lib self weather = Inr poa \<longrightarrow>
         length poa = length weather
       \<and> (\<forall>r \<in> set poa.
             f_le (Fin 0) (iam r) \<and> f_le (iam r) (Fin 1)
           \<and> poa_effective r = clip (Some (Fin 0)) None (f_mul (poa_global r) (iam r))
           \<and> (\<forall>g. poa_global r = Fin g \<and> 0 \<le> g \<longrightarrow>
                 (\<exists>e. poa_effective r = Fin e \<and> 0 \<le> e \<and> e \<le> g))
           \<and> (\<forall>g. poa_global r = Fin g \<and> g < 0 \<longrightarrow> poa_effective r = Fin 0)
           \<and> (poa_global r = NaN \<longrightarrow> poa_effective r = NaN)))
   \<and> ((\<exists>lat lon alt tlt az al.
          latitude self = Num lat \<and> longitude self = Num lon \<and> altitude self = Num alt
        \<and> tilt self = Num tlt \<and> azimuth self = Num az \<and> albedo self = Num al) \<longrightarrow>
       (\<exists>poa. calculate_poa lib self weather = Inr poa))"
proof -
  have iam_ok: "\<forall>x \<in> set (calculate_iam lib aois). f_le (Fin 0) x \<and> f_le x (Fin 1)"
    by (auto simp: calculate_iam_def Let_def clip_unit_fillna)
  have rows_ok: "length poa = length weather
       \<and> (\<forall>r \<in> set poa.
             f_le (Fin 0) (iam r) \<and> f_le (iam r) (Fin 1)
           \<and> poa_effective r = clip (Some (Fin 0)) None (f_mul (poa_global r) (iam r))
           \<and> (\<forall>g. poa_global r = Fin g \<and> 0 \<le> g \<longrightarrow>
                 (\<exists>e. poa_effective r = Fin e \<and> 0 \<le> e \<and> e \<le> g))
           \<and> (\<forall>g. poa_global r = Fin g \<and> g < 0 \<longrightarrow> poa_effective r = Fin 0)
           \<and> (poa_global r = NaN \<longrightarrow> poa_effective r = NaN))"
    if run: "calculate_poa lib self weather = Inr poa" for poa
  proof -
    from calculate_poa_inversion [OF run] obtain lat lon alt tlt az al where
      poa: "poa = map (poa_row_at lib lat lon alt tlt az al) weather" by blast
    have row: "f_le (Fin 0) (iam r) \<and> f_le (iam r) (Fin 1)
           \<and> poa_effective r = clip (Some (Fin 0)) None (f_mul (poa_global r) (iam r))
           \<and> (\<forall>g. poa_global r = Fin g \<and> 0 \<le> g \<longrightarrow>
                 (\<exists>e. poa_effective r = Fin e \<and> 0 \<le> e \<and> e \<le> g))
           \<and> (\<forall>g. poa_global r = Fin g \<and> g < 0 \<longrightarrow> poa_effective r = Fin 0)
           \<and> (poa_global r = NaN \<longrightarrow> poa_effective r = NaN)"
      if "r = poa_row_at lib lat lon alt tlt az al w" for r w
    proof -
      have "\<exists>i. iam r = Fin i \<and> 0 \<le> i \<and> i \<le> 1"
        unfolding that poa_row_at_fields(1) by (rule clip_unit_fillna_Fin)
      then obtain i where i: "iam r = Fin i" "0 \<le> i" "i \<le> 1" by blast
      have eff: "poa_effective r = clip (Some (Fin 0)) None (f_mul (poa_global r) (iam r))"
        by (simp add: that poa_row_at_fields(2))
      have "\<exists>e. poa_effective r = Fin e \<and> 0 \<le> e \<and> e \<le> g" if "poa_global r = Fin g" "0 \<le> g" for g
      proof -
        have "poa_effective r = Fin (max 0 (g * i))"
          by (simp add: eff that i clip_lower_Fin)
        moreover have "0 \<le> g * i" and "g * i \<le> g"
          using that(2) i(2,3) by (simp_all add: mult_left_le)
        ultimately show ?thesis by simp
      qed
      moreover have "poa_effective r = Fin 0" if "poa_global r = Fin g" "g < 0" for g
      proof -
        have "g * i \<le> 0" using that(2) i(2) by (simp add: mult_le_0_iff)
        then show ?thesis by (simp add: eff that(1) i(1) clip_lower_Fin)
      qed
      moreover have "poa_effective r = NaN" if "poa_global r = NaN"
        by (simp add: eff that clip_0_NaN)
      ultimately show ?thesis using i eff by simp
    qed
    have "\<forall>r \<in> set poa.
             f_le (Fin 0) (iam r) \<and> f_le (iam r) (Fin 1)
           \<and> poa_effective r = clip (Some (Fin 0)) None (f_mul (poa_global r) (iam r))
           \<and> (\<forall>g. poa_global r = Fin g \<and> 0 \<le> g \<longrightarrow>
                 (\<exists>e. poa_effective r = Fin e \<and> 0 \<le> e \<and> e \<le> g))
           \<and> (\<forall>g. poa_global r = Fin g \<and> g < 0 \<longrightarrow> poa_effective r = Fin 0)
           \<and> (poa_global r = NaN \<longrightarrow> poa_effective r = NaN)"
    proof
      fix r assume "r \<in> set poa"
      then obtain w where "r = poa_row_at lib lat lon alt tlt az al w"
        using poa by auto
      then show "f_le (Fin 0) (iam r) \<and> f_le (iam r) (Fin 1)
           \<and> poa_effective r = clip (Some (Fin 0)) None (f_mul (poa_global r) (iam r))
           \<and> (\<forall>g. poa_global r = Fin g \<and> 0 \<le> g \<longrightarrow>
                 (\<exists>e. poa_effective r = Fin e \<and> 0 \<le> e \<and> e \<le> g))
           \<and> (\<forall>g. poa_global r = Fin g \<and> g < 0 \<longrightarrow> poa_effective r = Fin 0)
           \<and> (poa_global r = NaN \<longrightarrow> poa_effective r = NaN)"
        by (rule row)
    qed
    moreover have "length poa = length weather" by (simp add: poa)
    ultimately show ?thesis by blast
  qed
  have returns: "\<exists>poa. calculate_poa lib self weather = Inr poa"
    if "\<exists>lat lon alt tlt az al.
          latitude self = Num lat \<and> longitude self = Num lon \<and> altitude self = Num alt
        \<and> tilt self = Num tlt \<and> azimuth self = Num az \<and> albedo self = Num al"
    using that calculate_poa_rows [of self _ _ _ _ _ _ lib weather] by blast
  from iam_ok rows_ok returns show ?thesis by blast
qed

theorem iam_and_effective_poa_bounds_witness:
  "calculate_iam perez_pvlib [Fin 60, Fin 95, NaN] = [Fin 1, Fin 0, Fin 0]
   \<and> (\<exists>poa. calculate_poa perez_pvlib (irradiance_model simulator) sample_weather = Inr poa
        \<and> map iam poa = [Fin 1, Fin 1]
        \<and> map poa_global poa = [Fin 500, NaN]
        \<and> map poa_effective poa = [Fin 500, NaN])"
  using iam_and_effective_poa_bounds
    [of perez_pvlib "[Fin 60, Fin 95, NaN]" "irradiance_model simulator" sample_weather]
  by (simp add: model_defs perez_pvlib_def Let_def)

text \<open>
  C5 as stated fails: in the hour without irradiance while the sun is up, \<open>poa_global\<close>
  is NaN and so is \<open>poa_effective\<close>, which is then neither \<open>>= 0\<close> nor \<open><= poa_global\<close>.
\<close>

theorem effective_poa_undefined_at_zero_irradiance:
  "map_sum id (map poa_global)
       (calculate_poa perez_pvlib (irradiance_model simulator) sample_weather)
     = Inr [Fin 500, NaN]
   \<and> map_sum id (map poa_effective)
       (calculate_poa perez_pvlib (irradiance_model simulator) sample_weather)
     = Inr [Fin 500, NaN]
   \<and> \<not> f_le (Fin 0) NaN \<and> \<not> f_le NaN NaN"
  by (simp add: model_defs perez_pvlib_def Let_def)

section \<open>The result of a run\<close>

lemma clip_0_pac_fillna:
  assumes "0 \<le> p"
  shows "\<exists>x. fillna (Fin 0) (clip (Some (Fin 0)) (Some (Fin p)) a) = Fin x \<and> 0 \<le> x \<and> x \<le> p"
  using assms
  by (cases a; auto simp: fillna_def clip_def drop_na_def clip_with_scalar_def py_min_def py_max_def
      f_lt_def f_gt_def f_ge_def Let_def)

lemma format_results_columns:
  "length (format_results df) = length df"
  "map fst (format_results df) = map datetime df"
  "map snd (format_results df) = map (fillna (Fin 0)) (map energy_kwh df)"
  by (simp_all add: format_results_def Let_def comp_def case_prod_beta)

text \<open>
  C6. With a rated AC output \<open>pac0 >= 0\<close>: whenever \<open>run_simulation\<close> returns, the fetch
  had returned a weather frame, and the result is a list of (datetime, energy_kwh) pairs
  with one pair for each weather row, the datetimes being those of the weather rows in
  their order, and every energy value a number between 0 and \<open>pac0\<close>. And it does return,
  for every weather frame, when the simulator was built by \<open>PVSimulator\<close> from dicts that
  hold every value the run reads.
\<close>

theorem simulation_result_aligned:
  assumes "inverter self ''pac0'' = Some (Num (Fin pac0))" and "0 \<le> pac0"
  shows "(\<forall>result. run_simulation lib self fetched = Inr result \<longrightarrow>
           (\<exists>weather. fetched = Inr weather
              \<and> length result = length weather
              \<and> map fst result = map datetime weather
              \<and> (\<forall>t < length result. \<exists>x. snd (result ! t) = Fin x \<and> 0 \<le> x \<and> x \<le> pac0)))
       \<and> (\<forall>loc sys mdl L weather.
             PVSimulator loc sys mdl (inverter self) L = Inr self
           \<and> runnable loc sys mdl (inverter self) \<longrightarrow>
           (\<exists>result. run_simulation lib self (Inr weather) = Inr result))"
proof -
  have aligned: "\<exists>weather. fetched = Inr weather
              \<and> length result = length weather
              \<and> map fst result = map datetime weather
              \<and> (\<forall>t < length result. \<exists>x. snd (result ! t) = Fin x \<and> 0 \<le> x \<and> x \<le> pac0)"
    if run: "run_simulation lib self fetched = Inr result" for result
  proof -
    from run obtain df where df: "simulation_frame lib self fetched = Inr df"
      and result: "result = format_results df"
      by (auto simp: run_simulation_def bindE_eq_Inr)
    from simulation_frame_inversion [OF df] obtain weather and dc ac where
      fetched: "fetched = Inr weather"
      and ac: "calculate_ac_power lib self (apply_all_losses (loss_model self) dc) = Inr ac"
      and len: "length df = length weather"
      and dates: "map datetime df = map datetime weather"
      and energy: "map energy_kwh df = ac"
      by blast
    from calculate_ac_power_inversion [OF ac] assms(1) obtain raw where
      raw: "ac = map (clip (Some (Fin 0)) (Some (Fin pac0))) raw"
      by (auto simp del: map_map)
    have "\<exists>x. snd (result ! t) = Fin x \<and> 0 \<le> x \<and> x \<le> pac0" if t: "t < length result" for t
    proof -
      have "length ac = length df"
        using arg_cong [OF energy, of length] by simp
      with t have t': "t < length raw"
        using raw by (simp add: result format_results_columns(1))
      have "snd (result ! t) = map snd result ! t"
        using t by simp
      also have "\<dots> = fillna (Fin 0) (clip (Some (Fin 0)) (Some (Fin pac0)) (raw ! t))"
        using t' by (simp add: result format_results_columns(3) energy raw)
      finally show ?thesis
        using clip_0_pac_fillna [OF assms(2)] by simp
    qed
    with fetched len dates show ?thesis
      by (simp add: result format_results_columns)
  qed
  have returns: "\<exists>result. run_simulation lib self (Inr weather) = Inr result"
    if "PVSimulator loc sys mdl (inverter self) L = Inr self"
      and "runnable loc sys mdl (inverter self)" for loc sys mdl L weather
    using simulation_frame_returns [OF that, of lib weather]
    by (auto simp: run_simulation_def)
  show ?thesis
  proof (intro conjI allI impI)
    fix result assume "run_simulation lib self fetched = Inr result"
    then show "\<exists>weather. fetched = Inr weather
              \<and> length result = length weather
              \<and> map fst result = map datetime weather
              \<and> (\<forall>t < length result. \<exists>x. snd (result ! t) = Fin x \<and> 0 \<le> x \<and> x \<le> pac0)"
      by (rule aligned)
  next
    fix loc sys mdl L weather
    assume "PVSimulator loc sys mdl (inverter self) L = Inr self
           \<and> runnable loc sys mdl (inverter self)"
    then show "\<exists>result. run_simulation lib self (Inr weather) = Inr result"
      using returns by blast
  qed
qed

theorem simulation_result_aligned_witness:
  "PVSimulator LOCATION SYSTEM MODULE INVERTER LOSSES = Inr simulator
   \<and> runnable LOCATION SYSTEM MODULE INVERTER
   \<and> (\<exists>result. run_simulation sample_pvlib simulator (Inr sample_weather) = Inr result
        \<and> length result = length sample_weather
        \<and> map fst result = [12, 13]
        \<and> snd (result ! 1) = Fin 0)"
proof -
  have h1: "inverter simulator ''pac0'' = Some (Num (Fin 1000))"
    by (simp add: simulator_dicts INVERTER_def)
  have h2: "(0::real) \<le> 1000" by simp
  have built: "PVSimulator LOCATION SYSTEM MODULE (inverter simulator) LOSSES = Inr simulator"
    by (simp add: simulator_dicts simulator_built)
  have ok: "runnable LOCATION SYSTEM MODULE (inverter simulator)"
    by (simp add: runnable_def is_number_def simulator_dicts LOCATION_def SYSTEM_def MODULE_def
        INVERTER_def)
  from simulation_result_aligned [OF h1 h2, of sample_pvlib "Inr sample_weather"] built ok
  obtain result where run: "run_simulation sample_pvlib simulator (Inr sample_weather) = Inr result"
    and "length result = length sample_weather"
    and "map fst result = map datetime sample_weather"
    by blast
  moreover from run sample_run
  have "result = [(12, Fin (849822217152752151 / 2000000000000000)), (13, Fin 0)]" by simp
  then have "snd (result ! 1) = Fin 0" by simp
  ultimately show ?thesis
    using built ok by (simp add: simulator_dicts sample_weather_def)
qed

text \<open>
  C10. A run returns the formatted frame of its last step. At every timestep the column
  \<open>energy_kwh\<close> is the column \<open>ac_power_kw\<close>, and the energy of the result is that AC power
  value, except that it is 0 where the AC power is NaN; no energy of the result is NaN.
\<close>

theorem energy_is_ac_power_or_zero:
  assumes "simulation_frame lib self fetched = Inr df"
  shows "run_simulation lib self fetched = Inr (format_results df)
       \<and> length (format_results df) = length df
       \<and> (\<forall>t < length df.
             energy_kwh (df ! t) = ac_power_kw (df ! t)
           \<and> snd (format_results df ! t) =
               (if ac_power_kw (df ! t) = NaN then Fin 0 else ac_power_kw (df ! t))
           \<and> snd (format_results df ! t) \<noteq> NaN)"
proof -
  from simulation_frame_inversion [OF assms] have cols: "map energy_kwh df = map ac_power_kw df"
    by auto
  have same: "energy_kwh (df ! t) = ac_power_kw (df ! t)" if "t < length df" for t
  proof -
    have "map energy_kwh df ! t = map ac_power_kw df ! t"
      by (simp only: cols)
    with that show ?thesis by simp
  qed
  have out: "snd (format_results df ! t) = fillna (Fin 0) (energy_kwh (df ! t))"
    if "t < length df" for t
    using that by (simp add: format_results_def Let_def case_prod_beta)
  show ?thesis
    by (simp add: run_simulation_def assms format_results_columns(1) same out fillna_def)
qed

theorem energy_is_ac_power_or_zero_witness:
  "\<exists>df. simulation_frame
          (sample_pvlib\<lparr>inverter_pvwatts :=
             (\<lambda>pdc pdc0 eta_inv_nom eta_inv_ref.
                if pdc = Fin 0 then NaN else f_mul eta_inv_nom pdc)\<rparr>)
          simulator (Inr sample_weather) = Inr df
      \<and> map ac_power_kw df = [Fin (849822217152752151 / 2000000000000000), NaN]
      \<and> run_simulation
          (sample_pvlib\<lparr>inverter_pvwatts :=
             (\<lambda>pdc pdc0 eta_inv_nom eta_inv_ref.
                if pdc = Fin 0 then NaN else f_mul eta_inv_nom pdc)\<rparr>)
          simulator (Inr sample_weather)
         = Inr [(12, Fin (849822217152752151 / 2000000000000000)), (13, Fin 0)]"
proof -
  let ?lib = "sample_pvlib\<lparr>inverter_pvwatts :=
             (\<lambda>pdc pdc0 eta_inv_nom eta_inv_ref.
                if pdc = Fin 0 then NaN else f_mul eta_inv_nom pdc)\<rparr>"
  have "\<exists>df. simulation_frame ?lib simulator (Inr sample_weather) = Inr df
      \<and> map ac_power_kw df = [Fin (849822217152752151 / 2000000000000000), NaN]"
    by (simp add: model_defs Let_def)
  then obtain df where both: "simulation_frame ?lib simulator (Inr sample_weather) = Inr df
      \<and> map ac_power_kw df = [Fin (849822217152752151 / 2000000000000000), NaN]" ..
  note frame = both [THEN conjunct1] and ac = both [THEN conjunct2]
  have run: "run_simulation ?lib simulator (Inr sample_weather)
         = Inr [(12, Fin (849822217152752151 / 2000000000000000)), (13, Fin 0)]"
    by (simp add: model_defs Let_def)
  note formatted = energy_is_ac_power_or_zero [OF frame, THEN conjunct1]
  have "simulation_frame ?lib simulator (Inr sample_weather) = Inr df
      \<and> map ac_power_kw df = [Fin (849822217152752151 / 2000000000000000), NaN]
      \<and> run_simulation ?lib simulator (Inr sample_weather)
         = Inr [(12, Fin (849822217152752151 / 2000000000000000)), (13, Fin 0)]"
    using formatted by (intro conjI frame ac run)
  then show ?thesis ..
qed

section \<open>The inverter keys that are never read\<close>

lemma calculate_ac_power_inverter_cong:
  assumes "ivt' ''pdc0'' = ivt ''pdc0''" and "ivt' ''eta_inv_nom'' = ivt ''eta_inv_nom''"
    and "ivt' ''eta_inv_ref'' = ivt ''eta_inv_ref''" and "ivt' ''pac0'' = ivt ''pac0''"
  shows "calculate_ac_power lib (self\<lparr>inverter := ivt'\<rparr>) dcs =
         calculate_ac_power lib (self\<lparr>inverter := ivt\<rparr>) dcs"
  using assms by (simp add: calculate_ac_power_def getitem_def get_default_def)

lemma calculate_dc_power_inverter_update:
  "calculate_dc_power lib (self\<lparr>inverter := ivt'\<rparr>) poas cts =
   calculate_dc_power lib self poas cts"
  by (simp add: calculate_dc_power_def)

lemma simulation_frame_inverter_cong:
  assumes "\<And>dcs. calculate_ac_power lib (self\<lparr>inverter := ivt'\<rparr>) dcs =
         calculate_ac_power lib (self\<lparr>inverter := ivt\<rparr>) dcs"
  shows "simulation_frame lib (self\<lparr>inverter := ivt'\<rparr>) fetched =
         simulation_frame lib (self\<lparr>inverter := ivt\<rparr>) fetched"
  by (simp add: simulation_frame_def assms calculate_dc_power_inverter_update)

text \<open>
  C9. If two inverter dicts agree on every key other than \<open>pdc_min\<close>, \<open>pdc_max\<close>,
  \<open>vdc_min\<close> and \<open>vdc_max\<close>, then DC power, AC power, the whole frame of a run (every
  stage's column) and its result are the same for both, errors included; so are the runs
  of two simulators built from configurations that differ only there. Every AC power
  value is the library's value clipped to \<open>[0, pac0]\<close> and nothing else: no threshold sets
  it to zero.
\<close>

theorem inverter_limits_not_read:
  assumes "\<forall>k. k \<notin> {''pdc_min'', ''pdc_max'', ''vdc_min'', ''vdc_max''} \<longrightarrow> ivt' k = ivt k"
  shows "calculate_dc_power lib (self\<lparr>inverter := ivt'\<rparr>) poas cts =
           calculate_dc_power lib (self\<lparr>inverter := ivt\<rparr>) poas cts
       \<and> calculate_ac_power lib (self\<lparr>inverter := ivt'\<rparr>) dcs =
           calculate_ac_power lib (self\<lparr>inverter := ivt\<rparr>) dcs
       \<and> simulation_frame lib (self\<lparr>inverter := ivt'\<rparr>) fetched =
           simulation_frame lib (self\<lparr>inverter := ivt\<rparr>) fetched
       \<and> run_simulation lib (self\<lparr>inverter := ivt'\<rparr>) fetched =
           run_simulation lib (self\<lparr>inverter := ivt\<rparr>) fetched
       \<and> (\<forall>s s'. PVSimulator loc sys mdl ivt L = Inr s \<and> PVSimulator loc sys mdl ivt' L = Inr s'
            \<longrightarrow> s' = s\<lparr>inverter := ivt'\<rparr>
              \<and> simulation_frame lib s' fetched = simulation_frame lib s fetched
              \<and> run_simulation lib s' fetched = run_simulation lib s fetched)
       \<and> (\<forall>ac. calculate_ac_power lib self dcs = Inr ac \<longrightarrow>
            (\<exists>pdc0 eta_nom eta_ref pac0.
               ac = map (\<lambda>p. clip (Some (Fin 0)) (Some pac0)
                                (inverter_pvwatts lib p pdc0 eta_nom eta_ref)) dcs))"
proof -
  from assms have keys: "ivt' ''pdc0'' = ivt ''pdc0''" "ivt' ''eta_inv_nom'' = ivt ''eta_inv_nom''"
    "ivt' ''eta_inv_ref'' = ivt ''eta_inv_ref''" "ivt' ''pac0'' = ivt ''pac0''"
    by simp_all
  have ac: "calculate_ac_power lib (x\<lparr>inverter := ivt'\<rparr>) ds =
         calculate_ac_power lib (x\<lparr>inverter := ivt\<rparr>) ds" for x ds
    by (rule calculate_ac_power_inverter_cong [OF keys])
  have frame: "simulation_frame lib (x\<lparr>inverter := ivt'\<rparr>) fetched =
         simulation_frame lib (x\<lparr>inverter := ivt\<rparr>) fetched" for x
    by (rule simulation_frame_inverter_cong) (rule ac)
  have run: "run_simulation lib (x\<lparr>inverter := ivt'\<rparr>) fetched =
         run_simulation lib (x\<lparr>inverter := ivt\<rparr>) fetched" for x
    by (simp add: run_simulation_def frame)
  have built: "s' = s\<lparr>inverter := ivt'\<rparr>
              \<and> simulation_frame lib s' fetched = simulation_frame lib s fetched
              \<and> run_simulation lib s' fetched = run_simulation lib s fetched"
    if "PVSimulator loc sys mdl ivt L = Inr s" and "PVSimulator loc sys mdl ivt' L = Inr s'"
    for s s'
  proof -
    from PVSimulator_inversion [OF that(1)] PVSimulator_inversion [OF that(2)]
    have s': "s' = s\<lparr>inverter := ivt'\<rparr>" and s: "s = s\<lparr>inverter := ivt\<rparr>"
      by auto
    from frame [of s] run [of s] s' s show ?thesis by simp
  qed
  have shape: "\<exists>pdc0 eta_nom eta_ref pac0.
               ac = map (\<lambda>p. clip (Some (Fin 0)) (Some pac0)
                                (inverter_pvwatts lib p pdc0 eta_nom eta_ref)) dcs"
    if "calculate_ac_power lib self dcs = Inr ac" for ac
    using calculate_ac_power_inversion [OF that] by (auto simp: comp_def)
  show ?thesis
  proof (intro conjI allI impI)
    fix s s' assume b: "PVSimulator loc sys mdl ivt L = Inr s \<and> PVSimulator loc sys mdl ivt' L = Inr s'"
    from b built show "s' = s\<lparr>inverter := ivt'\<rparr>" by blast
    from b built show "simulation_frame lib s' fetched = simulation_frame lib s fetched" by blast
    from b built show "run_simulation lib s' fetched = run_simulation lib s fetched" by blast
  qed (simp_all add: calculate_dc_power_inverter_update ac frame run shape)
qed

theorem inverter_limits_not_read_witness:
  "INVERTER ''pdc_min'' = Some (Num (Fin 50))
   \<and> run_simulation sample_pvlib
        (simulator\<lparr>inverter := INVERTER(''pdc_min'' \<mapsto> Num (Fin 600), ''vdc_max'' \<mapsto> Num (Fin 1))\<rparr>)
        (Inr sample_weather)
      = Inr [(12, Fin (849822217152752151 / 2000000000000000)), (13, Fin 0)]
   \<and> run_simulation sample_pvlib simulator (Inr sample_weather)
      = Inr [(12, Fin (849822217152752151 / 2000000000000000)), (13, Fin 0)]"
proof -
  have same: "\<forall>k. k \<notin> {''pdc_min'', ''pdc_max'', ''vdc_min'', ''vdc_max''} \<longrightarrow>
      (INVERTER(''pdc_min'' \<mapsto> Num (Fin 600), ''vdc_max'' \<mapsto> Num (Fin 1))) k = INVERTER k"
    by simp
  have now: "INVERTER ''pdc_min'' = Some (Num (Fin 50))"
    by (simp add: INVERTER_def)
  have sim: "simulator\<lparr>inverter := INVERTER\<rparr> = simulator"
    by (simp add: simulator_def)
  from inverter_limits_not_read
    [OF same, where lib = sample_pvlib and self = simulator and fetched = "Inr sample_weather"]
  have "run_simulation sample_pvlib
        (simulator\<lparr>inverter := INVERTER(''pdc_min'' \<mapsto> Num (Fin 600), ''vdc_max'' \<mapsto> Num (Fin 1))\<rparr>)
        (Inr sample_weather)
      = run_simulation sample_pvlib (simulator\<lparr>inverter := INVERTER\<rparr>) (Inr sample_weather)"
    by blast
  with sim sample_run now show ?thesis by simp
qed

section \<open>Construction\<close>

text \<open>
  C7, as the code has it. \<open>PVSimulator.__init__\<close> checks no value. It succeeds exactly
  when the location dict has \<open>latitude\<close>, \<open>longitude\<close>, \<open>altitude\<close> and the system dict has
  \<open>tilt\<close>, \<open>azimuth\<close>, \<open>albedo\<close>, \<open>mounting_type\<close> (so in particular for every
  configuration inside the physical ranges that has them). When it fails, the error is
  the \<open>KeyError\<close> of one of these seven keys, and that key is missing from its dict: it is
  the first missing one in the order in which the constructor reads them (\<open>latitude\<close>,
  \<open>longitude\<close>, \<open>altitude\<close>, \<open>tilt\<close>, \<open>azimuth\<close>, \<open>albedo\<close>, \<open>mounting_type\<close>).
\<close>

theorem construction_reads_keys_only:
  "((\<exists>self. PVSimulator loc sys mdl ivt L = Inr self) \<longleftrightarrow>
      loc ''latitude'' \<noteq> None \<and> loc ''longitude'' \<noteq> None \<and> loc ''altitude'' \<noteq> None
    \<and> sys ''tilt'' \<noteq> None \<and> sys ''azimuth'' \<noteq> None \<and> sys ''albedo'' \<noteq> None
    \<and> sys ''mounting_type'' \<noteq> None)
   \<and> (\<forall>e. PVSimulator loc sys mdl ivt L = Inl e \<longrightarrow>
         (\<exists>k \<in> {''latitude'', ''longitude'', ''altitude''}. e = KeyError k \<and> loc k = None)
       \<or> (\<exists>k \<in> {''tilt'', ''azimuth'', ''albedo'', ''mounting_type''}.
             e = KeyError k \<and> sys k = None))
   \<and> (loc ''latitude'' = None \<longrightarrow>
         PVSimulator loc sys mdl ivt L = Inl (KeyError ''latitude''))
   \<and> (loc ''latitude'' \<noteq> None \<and> loc ''longitude'' = None \<longrightarrow>
         PVSimulator loc sys mdl ivt L = Inl (KeyError ''longitude''))
   \<and> (loc ''latitude'' \<noteq> None \<and> loc ''longitude'' \<noteq> None \<and> loc ''altitude'' = None \<longrightarrow>
         PVSimulator loc sys mdl ivt L = Inl (KeyError ''altitude''))
   \<and> (loc ''latitude'' \<noteq> None \<and> loc ''longitude'' \<noteq> None \<and> loc ''altitude'' \<noteq> None
        \<and> sys ''tilt'' = None \<longrightarrow>
         PVSimulator loc sys mdl ivt L = Inl (KeyError ''tilt''))
   \<and> (loc ''latitude'' \<noteq> None \<and> loc ''longitude'' \<noteq> None \<and> loc ''altitude'' \<noteq> None
        \<and> sys ''tilt'' \<noteq> None \<and> sys ''azimuth'' = None \<longrightarrow>
         PVSimulator loc sys mdl ivt L = Inl (KeyError ''azimuth''))
   \<and> (loc ''latitude'' \<noteq> None \<and> loc ''longitude'' \<noteq> None \<and> loc ''altitude'' \<noteq> None
        \<and> sys ''tilt'' \<noteq> None \<and> sys ''azimuth'' \<noteq> None \<and> sys ''albedo'' = None \<longrightarrow>
         PVSimulator loc sys mdl ivt L = Inl (KeyError ''albedo''))
   \<and> (loc ''latitude'' \<noteq> None \<and> loc ''longitude'' \<noteq> None \<and> loc ''altitude'' \<noteq> None
        \<and> sys ''tilt'' \<noteq> None \<and> sys ''azimuth'' \<noteq> None \<and> sys ''albedo'' \<noteq> None
        \<and> sys ''mounting_type'' = None \<longrightarrow>
         PVSimulator loc sys mdl ivt L = Inl (KeyError ''mounting_type''))"
proof -
  have key: "bindE (getitem d k) f = (case d k of None \<Rightarrow> Inl (KeyError k) | Some v \<Rightarrow> f v)"
    for d :: params and k and f :: "pyobj \<Rightarrow> error + pv_simulator"
    by (simp add: getitem_def bindE_def split: option.splits)
  show ?thesis
    unfolding PVSimulator_def key
    by (auto split: option.splits)
qed

theorem construction_reads_keys_only_witness:
  "PVSimulator LOCATION SYSTEM MODULE INVERTER LOSSES = Inr simulator
   \<and> PVSimulator LOCATION (SYSTEM(''tilt'' := None, ''albedo'' := None)) MODULE INVERTER LOSSES
       = Inl (KeyError ''tilt'')
   \<and> PVSimulator (LOCATION(''altitude'' := None)) (SYSTEM(''tilt'' := None)) MODULE INVERTER LOSSES
       = Inl (KeyError ''altitude'')"
proof -
  have a: "PVSimulator LOCATION SYSTEM MODULE INVERTER LOSSES = Inr simulator"
    by (simp add: PVSimulator_def LOCATION_def SYSTEM_def getitem_def simulator_def)
  from construction_reads_keys_only
      [of LOCATION "SYSTEM(''tilt'' := None, ''albedo'' := None)" MODULE INVERTER LOSSES,
        THEN conjunct2, THEN conjunct2, THEN conjunct2, THEN conjunct2, THEN conjunct2,
        THEN conjunct1]
  have b: "PVSimulator LOCATION (SYSTEM(''tilt'' := None, ''albedo'' := None)) MODULE INVERTER
      LOSSES = Inl (KeyError ''tilt'')"
    by (simp add: LOCATION_def)
  from construction_reads_keys_only
      [of "LOCATION(''altitude'' := None)" "SYSTEM(''tilt'' := None)" MODULE INVERTER LOSSES,
        THEN conjunct2, THEN conjunct2, THEN conjunct2, THEN conjunct2, THEN conjunct1]
  have c: "PVSimulator (LOCATION(''altitude'' := None)) (SYSTEM(''tilt'' := None)) MODULE
      INVERTER LOSSES = Inl (KeyError ''altitude'')"
    by (simp add: LOCATION_def)
  from a b c show ?thesis by (intro conjI)
qed

text \<open>
  C7 as stated fails: with tilt 100 (outside \<open>[0, 90]\<close>), azimuth 360 (outside
  \<open>[0, 360)\<close>) and albedo 1.5 (outside \<open>[0, 1]\<close>) the constructor returns a simulator.
\<close>

theorem construction_accepts_out_of_range:
  "\<not> ((0::real) \<le> 100 \<and> (100::real) \<le> 90)
   \<and> \<not> ((0::real) \<le> 360 \<and> (360::real) < 360)
   \<and> \<not> ((0::real) \<le> 3 / 2 \<and> (3 / 2 :: real) \<le> 1)
   \<and> PVSimulator LOCATION
        (SYSTEM(''tilt'' \<mapsto> Num (Fin 100), ''azimuth'' \<mapsto> Num (Fin 360),
                ''albedo'' \<mapsto> Num (Fin (3 / 2))))
        MODULE INVERTER LOSSES
      = Inr (simulator
          \<lparr>system := SYSTEM(''tilt'' \<mapsto> Num (Fin 100), ''azimuth'' \<mapsto> Num (Fin 360),
                ''albedo'' \<mapsto> Num (Fin (3 / 2))),
           irradiance_model :=
             IrradianceModel (Num (Fin (3130 / 100))) (Num (Fin (12062 / 100))) (Num (Fin 5))
               (Num (Fin 100)) (Num (Fin 360)) (Num (Fin (3 / 2)))\<rparr>)"
  by (simp add: PVSimulator_def LOCATION_def SYSTEM_def getitem_def simulator_def)

section \<open>Looking up one loss category\<close>

text \<open>
  C8. \<open>apply_individual_loss\<close> with a name that is not a key of the loss profile fails (the
  code raises \<open>ValueError\<close> with the name; this is the configuration error of the
  specification) and computes nothing from the power value; with a configured name it
  returns the power times \<open>1 - loss_fraction\<close>, for a plain number and for a series.
\<close>

theorem unknown_loss_category:
  "(loss_name \<notin> fst ` set L \<longrightarrow>
       apply_individual_loss_scalar L p loss_name = Inl (ValueError loss_name)
     \<and> apply_individual_loss L xs loss_name = Inl (ValueError loss_name))
   \<and> (distinct (map fst L) \<and> (loss_name, v) \<in> set L \<longrightarrow>
       apply_individual_loss_scalar L p loss_name = Inr (f_mul p (f_sub (Fin 1) v))
     \<and> apply_individual_loss L xs loss_name = Inr (map (\<lambda>x. f_mul x (f_sub (Fin 1) v)) xs))
   \<and> (distinct (map fst L) \<and> (loss_name, Fin l) \<in> set L \<longrightarrow>
       apply_individual_loss_scalar L (Fin q) loss_name = Inr (Fin (q * (1 - l))))"
proof -
  have none: "map_of L loss_name = None" if "loss_name \<notin> fst ` set L"
    using that by (simp add: map_of_eq_None_iff)
  have some: "map_of L loss_name = Some w" if "distinct (map fst L)" "(loss_name, w) \<in> set L" for w
    using that by simp
  show ?thesis
    by (auto simp: apply_individual_loss_scalar_def apply_individual_loss_def
        apply_individual_loss_with_def series_mul_def none some)
qed

theorem unknown_loss_category_witness:
  "apply_individual_loss_scalar LOSSES (Fin 1000) ''dust'' = Inl (ValueError ''dust'')
   \<and> apply_individual_loss_scalar LOSSES (Fin 1000) ''soiling'' = Inr (Fin 980)
   \<and> apply_individual_loss LOSSES [Fin 1000, NaN] ''lid'' = Inr [Fin 985, NaN]"
  using unknown_loss_category [of "''dust''" LOSSES "Fin 1000" "[Fin 1000, NaN]"]
    unknown_loss_category [of "''soiling''" LOSSES "Fin 1000" "[Fin 1000, NaN]" "Fin (2 / 100)" "2 / 100" 1000]
    unknown_loss_category [of "''lid''" LOSSES "Fin 1000" "[Fin 1000, NaN]" "Fin (15 / 1000)"]
  by (simp add: LOSSES_def fractions_def)

end
